theory Spec2Isabelle
  imports Main "HOL-Library.AList" "HOL-Library.Multiset"
begin

section \<open>Data model (types.ts)\<close>

text \<open>
  Strings are lists of 8-bit characters; a character stands for one code unit of the
  JavaScript string. Optional fields are \<open>option\<close> values, \<open>number\<close> fields that hold
  integers are \<open>int\<close>.
\<close>

datatype AgentMode = TUTOR | RESEARCH | NOTEBOOK

datatype Role = User | Model

datatype Flashcard = Flashcard (card_front: string) (card_back: string)

datatype QuizQuestion =
  QuizQuestion (question: string) (options: "string list") (correctAnswerIndex: int)
    (explanation: string)

datatype QuestionType = MCQ | SHORT_ANSWER

datatype ExamQuestion =
  ExamQuestion (exam_id: string) (exam_type: QuestionType) (exam_question: string)
    (exam_options: "string list option") (exam_correctAnswerIndex: "int option")
    (modelAnswer: "string option")

text \<open>A research source: title and uri.\<close>

type_synonym Source = "string \<times> string"

record ChatMessage =
  role :: Role
  msgText :: string
  sources :: "Source list option"

record LessonSlide =
  title :: string
  content :: string
  imagePrompt :: string
  imageUrl :: "string option"
  imageLoading :: "bool option"

record Topic =
  topic_id :: string
  name :: string
  timestamp :: int
  messages :: "ChatMessage list"
  flashcards :: "Flashcard list"
  quizzes :: "QuizQuestion list"
  examQuestions :: "ExamQuestion list"
  isMainTopic :: bool
  notebookContent :: string
  knowledgeBase :: string

record TopicAnalysis =
  isNewTopic :: bool
  topicName :: string

text \<open>
  The session snapshot: slides, currentSlideIndex, lessonContext, chatHistory,
  currentTopicName, agentMode.
\<close>

datatype SessionState =
  SessionState "LessonSlide list" nat string "ChatMessage list" string AgentMode

section \<open>String helpers of the JavaScript runtime\<close>

text \<open>
  \<open>String.prototype.toLowerCase\<close> on code units below 256: the ASCII capitals and the
  Latin-1 capitals (all of 0xC0 .. 0xDE but the multiplication sign 0xD7) move up by 32.
\<close>

definition toLowerChar :: "char \<Rightarrow> char" where
  "toLowerChar c =
     (let n = (of_char c :: nat)
      in if (65 \<le> n \<and> n \<le> 90) \<or> (192 \<le> n \<and> n \<le> 222 \<and> n \<noteq> 215)
         then char_of (n + 32) else c)"

definition toLowerCase :: "string \<Rightarrow> string" where
  "toLowerCase s = map toLowerChar s"

text \<open>
  The white space that \<open>String.prototype.trim\<close> strips, among code units below 256:
  tab, line feed, vertical tab, form feed, carriage return, space, no-break space.
\<close>

definition isWhiteSpace :: "char \<Rightarrow> bool" where
  "isWhiteSpace c = ((of_char c :: nat) \<in> {9, 10, 11, 12, 13, 32, 160})"

definition trim :: "string \<Rightarrow> string" where
  "trim s = rev (dropWhile isWhiteSpace (rev (dropWhile isWhiteSpace s)))"

text \<open>\<open>s.substring(0, n)\<close> for a non-negative \<open>n\<close>.\<close>

definition substring0 :: "nat \<Rightarrow> string \<Rightarrow> string" where
  "substring0 n s = take n s"

text \<open>\<open>xs.slice(-n)\<close>: the last \<open>n\<close> elements, all of them when there are fewer.\<close>

definition sliceLast :: "nat \<Rightarrow> 'a list \<Rightarrow> 'a list" where
  "sliceLast n xs = drop (length xs - n) xs"

section \<open>The topic store (class TopicDatabase)\<close>

text \<open>
  The \<open>Map<string, Topic>\<close> is an association list in insertion order, which is the order
  \<open>Map.prototype.values\<close> iterates in. \<open>Map.prototype.set\<close> is \<open>AList.update\<close> (an
  existing key keeps its place, a new key goes to the end), \<open>get\<close> is \<open>map_of\<close>.
\<close>

record TopicDatabase =
  topics :: "(string \<times> Topic) list"
  currentTopicId :: "string option"
  mainTopicName :: "string option"
  sessionState :: "SessionState option"

definition emptyDatabase :: TopicDatabase where
  "emptyDatabase =
     \<lparr>topics = [], currentTopicId = None, mainTopicName = None, sessionState = None\<rparr>"

definition topicValues :: "TopicDatabase \<Rightarrow> Topic list" where
  "topicValues db = map snd (topics db)"

definition hasTopic :: "TopicDatabase \<Rightarrow> string \<Rightarrow> bool" where
  "hasTopic db topicId = (map_of (topics db) topicId \<noteq> None)"

text \<open>
  \<open>createTopic\<close> reads two values from its environment: the identifier that
  \<open>crypto.randomUUID()\<close> returns and the time \<open>Date.now()\<close> returns. They are the
  parameters \<open>newId\<close> and \<open>now\<close>. The function returns the store and the topic.
\<close>

definition getTopicByName :: "TopicDatabase \<Rightarrow> string \<Rightarrow> Topic option" where
  "getTopicByName db nm =
     find (\<lambda>t. toLowerCase (name t) = toLowerCase nm) (topicValues db)"

definition createTopic ::
  "string \<Rightarrow> int \<Rightarrow> string \<Rightarrow> bool \<Rightarrow> TopicDatabase \<Rightarrow> TopicDatabase \<times> Topic" where
  "createTopic newId now nm isMain db =
     (case find (\<lambda>t. toLowerCase (name t) = toLowerCase nm) (topicValues db) of
        Some existing \<Rightarrow> (db, existing)
      | None \<Rightarrow>
          (let newTopic = \<lparr>topic_id = newId, name = nm, timestamp = now, messages = [],
                 flashcards = [], quizzes = [], examQuestions = [], isMainTopic = isMain,
                 notebookContent = [], knowledgeBase = []\<rparr>
           in (db\<lparr>topics := AList.update newId newTopic (topics db)\<rparr>, newTopic)))"

definition reset :: "string \<Rightarrow> int \<Rightarrow> string \<Rightarrow> TopicDatabase \<Rightarrow> TopicDatabase" where
  "reset newId now mainName db =
     (let db1 = db\<lparr>topics := [], mainTopicName := Some mainName, sessionState := None\<rparr>;
          (db2, mainTopic) = createTopic newId now mainName True db1
      in db2\<lparr>currentTopicId := Some (topic_id mainTopic)\<rparr>)"

definition getMainTopicName :: "TopicDatabase \<Rightarrow> string option" where
  "getMainTopicName db = mainTopicName db"

definition setSessionState :: "SessionState \<Rightarrow> TopicDatabase \<Rightarrow> TopicDatabase" where
  "setSessionState s db = db\<lparr>sessionState := Some s\<rparr>"

definition getSessionState :: "TopicDatabase \<Rightarrow> SessionState option" where
  "getSessionState db = sessionState db"

definition setCurrentTopic :: "string \<Rightarrow> TopicDatabase \<Rightarrow> TopicDatabase" where
  "setCurrentTopic topicId db =
     (if hasTopic db topicId then db\<lparr>currentTopicId := Some topicId\<rparr> else db)"

text \<open>\<open>!this.currentTopicId\<close> holds for \<open>null\<close> and for the empty string.\<close>

definition getCurrentTopic :: "TopicDatabase \<Rightarrow> Topic option" where
  "getCurrentTopic db =
     (case currentTopicId db of
        None \<Rightarrow> None
      | Some i \<Rightarrow> if i = [] then None else map_of (topics db) i)"

text \<open>
  The comparator of \<open>getAllTopics\<close>, and \<open>Array.prototype.sort\<close> as a stable insertion
  sort that calls it: an element moves in front of the first element of the sorted prefix
  that the comparator puts it strictly before.
\<close>

definition compareTopics :: "Topic \<Rightarrow> Topic \<Rightarrow> int" where
  "compareTopics a b =
     (if isMainTopic a then - 1
      else if isMainTopic b then 1
      else timestamp a - timestamp b)"

fun insertBy :: "('a \<Rightarrow> 'a \<Rightarrow> int) \<Rightarrow> 'a \<Rightarrow> 'a list \<Rightarrow> 'a list" where
  "insertBy cmp x [] = [x]"
| "insertBy cmp x (y # ys) = (if cmp x y < 0 then x # y # ys else y # insertBy cmp x ys)"

definition sortBy :: "('a \<Rightarrow> 'a \<Rightarrow> int) \<Rightarrow> 'a list \<Rightarrow> 'a list" where
  "sortBy cmp xs = foldl (\<lambda>acc x. insertBy cmp x acc) [] xs"

definition getAllTopics :: "TopicDatabase \<Rightarrow> Topic list" where
  "getAllTopics db = sortBy compareTopics (topicValues db)"

text \<open>
  The mutators fetch the topic object and change it in place when it is there:
  \<open>modifyTopic\<close> is that pattern.
\<close>

definition modifyTopic :: "string \<Rightarrow> (Topic \<Rightarrow> Topic) \<Rightarrow> TopicDatabase \<Rightarrow> TopicDatabase" where
  "modifyTopic topicId f db =
     (case map_of (topics db) topicId of
        None \<Rightarrow> db
      | Some t \<Rightarrow> db\<lparr>topics := AList.map_entry topicId f (topics db)\<rparr>)"

definition addMessageToTopic :: "string \<Rightarrow> ChatMessage \<Rightarrow> TopicDatabase \<Rightarrow> TopicDatabase" where
  "addMessageToTopic topicId message db =
     modifyTopic topicId (\<lambda>t. t\<lparr>messages := messages t @ [message]\<rparr>) db"

text \<open>The separator of \<open>appendKnowledge\<close>: a line feed, a hyphen and a space.\<close>

definition knowledgeSeparator :: string where
  "knowledgeSeparator = [CHR 0x0A, CHR ''-'', CHR '' '']"

definition appendKnowledge :: "string \<Rightarrow> string \<Rightarrow> TopicDatabase \<Rightarrow> TopicDatabase" where
  "appendKnowledge topicId summary db =
     modifyTopic topicId
       (\<lambda>t. t\<lparr>knowledgeBase := knowledgeBase t @ knowledgeSeparator @ summary\<rparr>) db"

definition getKnowledgeBase :: "TopicDatabase \<Rightarrow> string \<Rightarrow> string" where
  "getKnowledgeBase db topicId =
     (case map_of (topics db) topicId of None \<Rightarrow> [] | Some t \<Rightarrow> knowledgeBase t)"

definition addFlashcardsToTopic :: "string \<Rightarrow> Flashcard list \<Rightarrow> TopicDatabase \<Rightarrow> TopicDatabase" where
  "addFlashcardsToTopic topicId cards db =
     modifyTopic topicId (\<lambda>t. t\<lparr>flashcards := flashcards t @ cards\<rparr>) db"

definition addQuizQuestionsToTopic ::
  "string \<Rightarrow> QuizQuestion list \<Rightarrow> TopicDatabase \<Rightarrow> TopicDatabase" where
  "addQuizQuestionsToTopic topicId questions db =
     modifyTopic topicId (\<lambda>t. t\<lparr>quizzes := quizzes t @ questions\<rparr>) db"

definition setExamQuestionsForTopic ::
  "string \<Rightarrow> ExamQuestion list \<Rightarrow> TopicDatabase \<Rightarrow> TopicDatabase" where
  "setExamQuestionsForTopic topicId questions db =
     modifyTopic topicId (\<lambda>t. t\<lparr>examQuestions := questions\<rparr>) db"

definition getExamQuestionsForTopic :: "TopicDatabase \<Rightarrow> string \<Rightarrow> ExamQuestion list" where
  "getExamQuestionsForTopic db topicId =
     (case map_of (topics db) topicId of None \<Rightarrow> [] | Some t \<Rightarrow> examQuestions t)"

definition updateNotebookContent :: "string \<Rightarrow> string \<Rightarrow> TopicDatabase \<Rightarrow> TopicDatabase" where
  "updateNotebookContent topicId c db =
     modifyTopic topicId (\<lambda>t. t\<lparr>notebookContent := c\<rparr>) db"

text \<open>The bundle \<open>getTopicContent\<close> returns, in the order of its fields.\<close>

type_synonym TopicContent =
  "Flashcard list \<times> QuizQuestion list \<times> ExamQuestion list \<times> string \<times> string"

definition getTopicContent :: "TopicDatabase \<Rightarrow> string \<Rightarrow> TopicContent" where
  "getTopicContent db topicId =
     (case map_of (topics db) topicId of
        None \<Rightarrow> ([], [], [], [], [])
      | Some t \<Rightarrow> (flashcards t, quizzes t, examQuestions t, notebookContent t, knowledgeBase t))"

section \<open>Sequences of store operations\<close>

text \<open>
  The public methods of the store that change it, as a datatype of calls, so that a
  sequence of calls is a list. \<open>Reset\<close> and \<open>CreateTopic\<close> carry the identifier and the
  time their call reads from the environment.
\<close>

datatype StoreOp =
    Reset string int string
  | CreateTopic string int string bool
  | SetSessionState SessionState
  | SetCurrentTopic string
  | AddMessageToTopic string ChatMessage
  | AppendKnowledge string string
  | AddFlashcardsToTopic string "Flashcard list"
  | AddQuizQuestionsToTopic string "QuizQuestion list"
  | SetExamQuestionsForTopic string "ExamQuestion list"
  | UpdateNotebookContent string string

fun applyOp :: "TopicDatabase \<Rightarrow> StoreOp \<Rightarrow> TopicDatabase" where
  "applyOp db (Reset newId now nm) = reset newId now nm db"
| "applyOp db (CreateTopic newId now nm isMain) = fst (createTopic newId now nm isMain db)"
| "applyOp db (SetSessionState s) = setSessionState s db"
| "applyOp db (SetCurrentTopic i) = setCurrentTopic i db"
| "applyOp db (AddMessageToTopic i m) = addMessageToTopic i m db"
| "applyOp db (AppendKnowledge i s) = appendKnowledge i s db"
| "applyOp db (AddFlashcardsToTopic i cs) = addFlashcardsToTopic i cs db"
| "applyOp db (AddQuizQuestionsToTopic i qs) = addQuizQuestionsToTopic i qs db"
| "applyOp db (SetExamQuestionsForTopic i qs) = setExamQuestionsForTopic i qs db"
| "applyOp db (UpdateNotebookContent i c) = updateNotebookContent i c db"

definition applyOps :: "TopicDatabase \<Rightarrow> StoreOp list \<Rightarrow> TopicDatabase" where
  "applyOps db ops = foldl applyOp db ops"

text \<open>No two topics of the store have names that are equal up to letter case.\<close>

definition namesDistinct :: "TopicDatabase \<Rightarrow> bool" where
  "namesDistinct db = distinct (map (\<lambda>t. toLowerCase (name t)) (topicValues db))"

text \<open>The number of topics of the store that are flagged main.\<close>

definition mainCount :: "TopicDatabase \<Rightarrow> nat" where
  "mainCount db = length (filter isMainTopic (topicValues db))"

text \<open>
  A sequence of calls in which \<open>createTopic\<close> is never asked for a main topic and always
  draws an identifier that no topic of the store has at that moment.
\<close>

fun createsOnlyFreshNonMain :: "TopicDatabase \<Rightarrow> StoreOp list \<Rightarrow> bool" where
  "createsOnlyFreshNonMain db [] = True"
| "createsOnlyFreshNonMain db (CreateTopic newId now nm isMain # ops) =
     (\<not> isMain \<and> newId \<notin> fst ` set (topics db)
      \<and> createsOnlyFreshNonMain (applyOp db (CreateTopic newId now nm isMain)) ops)"
| "createsOnlyFreshNonMain db (op # ops) = createsOnlyFreshNonMain (applyOp db op) ops"



section \<open>The external services\<close>

text \<open>
  An awaited call to a remote service either rejects or resolves with a value. What the
  service answers in a turn is an input of the model.
\<close>

datatype 'a ApiResult = Rejected | Resolved 'a

text \<open>
  \<open>analyzeTopicShift\<close>: the \<open>try\<close> block awaits the model call, replaces a missing or empty
  response text by a default document and hands the text to \<open>JSON.parse\<close>, which is the
  parameter \<open>parseJson\<close> (\<open>None\<close> when it throws). The \<open>catch\<close> block returns the fallback.
  The user message and the recent history only feed the prompt of the remote call.
\<close>

definition defaultAnalysisJson :: string where
  \<open>defaultAnalysisJson = ''{"isNewTopic": false, "topicName": ""}''\<close>

definition analyzeTopicShift ::
  "(string \<Rightarrow> TopicAnalysis option) \<Rightarrow> string option ApiResult \<Rightarrow> string \<Rightarrow> TopicAnalysis" where
  "analyzeTopicShift parseJson classifyResponse currentTopic =
     (case classifyResponse of
        Rejected \<Rightarrow> \<lparr>isNewTopic = False, topicName = currentTopic\<rparr>
      | Resolved txt \<Rightarrow>
          (let jsonStr = (case txt of
                            None \<Rightarrow> defaultAnalysisJson
                          | Some s \<Rightarrow> if s = [] then defaultAnalysisJson else s)
           in case parseJson jsonStr of
                None \<Rightarrow> \<lparr>isNewTopic = False, topicName = currentTopic\<rparr>
              | Some a \<Rightarrow> a))"

text \<open>
  \<open>performResearch\<close>: a grounding chunk is the pair of the optional \<open>uri\<close> and \<open>title\<close> of
  its \<open>web\<close> part; it becomes a source when both are present and not empty.
\<close>

type_synonym GroundingChunk = "string option \<times> string option"

definition truthy :: "string option \<Rightarrow> bool" where
  "truthy s = (case s of None \<Rightarrow> False | Some v \<Rightarrow> v \<noteq> [])"

definition performResearch ::
  "(string option \<times> GroundingChunk list) ApiResult \<Rightarrow> string \<times> Source list" where
  "performResearch researchResponse =
     (case researchResponse of
        Rejected \<Rightarrow> (''I couldn't access the research tools at the moment.'', [])
      | Resolved (txt, chunks) \<Rightarrow>
          ((if truthy txt then the txt else ''No results found.''),
           map (\<lambda>(u, t). (the t, the u)) (filter (\<lambda>(u, t). truthy u \<and> truthy t) chunks)))"

section \<open>The agent router (class AgentOrchestrator)\<close>

datatype Chat = Chat

record AgentOrchestrator =
  parentChat :: "Chat option"
  currentTopicName :: string

definition newAgentOrchestrator :: "Chat \<Rightarrow> string \<Rightarrow> AgentOrchestrator" where
  "newAgentOrchestrator chat initialTopic =
     \<lparr>parentChat = Some chat, currentTopicName = initialTopic\<rparr>"

definition updateParentChat :: "Chat \<Rightarrow> AgentOrchestrator \<Rightarrow> AgentOrchestrator" where
  "updateParentChat chat orch = orch\<lparr>parentChat := Some chat\<rparr>"

definition updateTopic :: "string \<Rightarrow> AgentOrchestrator \<Rightarrow> AgentOrchestrator" where
  "updateTopic topic orch = orch\<lparr>currentTopicName := topic\<rparr>"

text \<open>
  What one turn reads from outside: the classifier's answer and \<open>JSON.parse\<close>, the
  researcher's answer, the conversation engine (\<open>parentChat.sendMessage\<close>, by prompt), and
  the identifier and time for each of the two places that may create a topic (the
  background generation and the shift handling of the session component).
\<close>

record TurnEnv =
  classifyResponse :: "string option ApiResult"
  parseJson :: "string \<Rightarrow> TopicAnalysis option"
  researchResponse :: "(string option \<times> GroundingChunk list) ApiResult"
  sendMessage :: "string \<Rightarrow> string ApiResult"
  backgroundId :: string
  backgroundNow :: int
  shiftId :: string
  shiftNow :: int

datatype TurnError = ParentNotInitialized | SendMessageRejected | SlideUndefined

record QueryResult =
  response :: ChatMessage
  analysis :: TopicAnalysis
  resultSources :: "Source list"

definition newline :: string where
  "newline = [CHR 0x0A]"

definition spaces :: "nat \<Rightarrow> string" where
  "spaces n = replicate n (CHR '' '')"

text \<open>The note that announces a pivot to the conversation engine.\<close>

definition systemNote :: "string \<Rightarrow> string" where
  \<open>systemNote workingTopicName =
     ''[SYSTEM NOTE: The user has switched context to the topic "'' @ workingTopicName
     @ ''". Pivot your response to focus on this new topic immediately.]'' @ newline\<close>

text \<open>
  The shift logic of \<open>processUserQuery\<close>: the working topic name, the system injection and
  the orchestrator with its current topic name updated.
\<close>

definition detectShift ::
  "TopicAnalysis \<Rightarrow> AgentOrchestrator \<Rightarrow> string \<times> string \<times> AgentOrchestrator" where
  "detectShift a orch =
     (if isNewTopic a \<and> topicName a \<noteq> currentTopicName orch
      then (topicName a, systemNote (topicName a), orch\<lparr>currentTopicName := topicName a\<rparr>)
      else (currentTopicName orch, [], orch))"

text \<open>The texts of the child agents, with the line breaks and indentation of the source.\<close>

definition researchOutput :: "string \<Rightarrow> string \<Rightarrow> string" where
  \<open>researchOutput userText researchText =
     newline @ spaces 6 @ ''[DATA FROM RESEARCHER AGENT]:''
     @ newline @ spaces 6 @ ''The user asked about "'' @ userText @ ''".''
     @ newline @ spaces 6 @ ''Here are the search findings:''
     @ newline @ spaces 6 @ researchText
     @ newline @ spaces 6
     @ newline @ spaces 6
     @ ''Instructions: Synthesize this research into a helpful response. Cite the sources provided.''
     @ newline @ spaces 6\<close>

definition notebookBudget :: nat where
  "notebookBudget = 20000"

definition notebookEmptyOutput :: string where
  "notebookEmptyOutput =
     ''[DATA FROM NOTEBOOK AGENT]: The user has not uploaded any notes yet. ''
     @ ''Remind them to paste their content to use this feature.''"

definition notebookHeader :: string where
  \<open>notebookHeader =
     newline @ spaces 8 @ ''[DATA FROM NOTEBOOK AGENT]:''
     @ newline @ spaces 8 @ ''The user has provided the following personal notes/documents:''
     @ newline @ spaces 8 @ ''"""''
     @ newline @ spaces 8\<close>

definition notebookInstruction :: "string \<Rightarrow> string" where
  \<open>notebookInstruction userText =
     '' ... (content truncated for context)''
     @ newline @ spaces 8 @ ''"""''
     @ newline @ spaces 8
     @ newline @ spaces 8 @ ''Instructions: Answer the user's question "'' @ userText
     @ ''" strictly based on the provided notes above. If the answer isn't in the notes, say so.''
     @ newline @ spaces 8\<close>

definition notebookOutput :: "string \<Rightarrow> string \<Rightarrow> string" where
  "notebookOutput userText nb =
     (if trim nb \<noteq> []
      then notebookHeader @ substring0 notebookBudget nb @ notebookInstruction userText
      else notebookEmptyOutput)"

text \<open>
  The routing step of \<open>processUserQuery\<close>: the output of the child agent and the sources.
  The notebook agent reads the notes of the store's current topic.
\<close>

definition childAgentRouting ::
  "TurnEnv \<Rightarrow> AgentMode \<Rightarrow> string \<Rightarrow> TopicDatabase \<Rightarrow> string \<times> Source list" where
  "childAgentRouting env mode userText db =
     (case mode of
        RESEARCH \<Rightarrow>
          (let (researchText, srcs) = performResearch (researchResponse env)
           in (researchOutput userText researchText, srcs))
      | NOTEBOOK \<Rightarrow>
          (let nb = (case getCurrentTopic db of None \<Rightarrow> [] | Some t \<Rightarrow> notebookContent t)
           in (notebookOutput userText nb, []))
      | TUTOR \<Rightarrow> ([], []))"

definition finalPrompt :: "string \<Rightarrow> string \<Rightarrow> string \<Rightarrow> string \<Rightarrow> string" where
  \<open>finalPrompt systemInjection slideContext childAgentOutput userText =
     newline @ spaces 4 @ systemInjection
     @ newline @ spaces 4 @ ''[Current Slide Context: "'' @ slideContext @ ''"]''
     @ newline @ spaces 4 @ childAgentOutput
     @ newline @ spaces 4
     @ newline @ spaces 4 @ ''User Query: '' @ userText
     @ newline @ spaces 4\<close>

text \<open>
  \<open>triggerBackgroundGeneration\<close> is called without \<open>await\<close>: it runs up to its first
  \<open>await\<close> inside the turn, which is the part below (it creates and activates a topic when
  the store has no current topic, and fixes the topic that will receive the material). The
  rest runs when the material arrives: \<open>completeBackgroundGeneration\<close>.
\<close>

definition triggerBackgroundGeneration ::
  "string \<Rightarrow> int \<Rightarrow> string \<Rightarrow> TopicDatabase \<Rightarrow> TopicDatabase \<times> string option" where
  "triggerBackgroundGeneration newId now topicNm db =
     (let db1 = (case getCurrentTopic db of
                   None \<Rightarrow> (let (d, t) = createTopic newId now topicNm False db
                            in setCurrentTopic (topic_id t) d)
                 | Some t \<Rightarrow> db);
          targetTopicId = (case getCurrentTopic db1 of
                             None \<Rightarrow> None
                           | Some t \<Rightarrow> if topic_id t = [] then None else Some (topic_id t))
      in (db1, targetTopicId))"

definition completeBackgroundGeneration ::
  "string option \<Rightarrow> Flashcard list \<times> QuizQuestion list \<Rightarrow> TopicDatabase \<Rightarrow> TopicDatabase" where
  "completeBackgroundGeneration targetTopicId materials db =
     (case targetTopicId of
        None \<Rightarrow> db
      | Some i \<Rightarrow> addQuizQuestionsToTopic i (snd materials) (addFlashcardsToTopic i (fst materials) db))"

text \<open>
  \<open>processUserQuery\<close> returns the error or the result, the orchestrator and the store as the
  call leaves them, and the topic that the detached background generation will write to.
\<close>

definition processUserQuery ::
  "TurnEnv \<Rightarrow> string \<Rightarrow> AgentMode \<Rightarrow> ChatMessage list \<Rightarrow> string \<Rightarrow> AgentOrchestrator
     \<Rightarrow> TopicDatabase
     \<Rightarrow> (TurnError + QueryResult) \<times> AgentOrchestrator \<times> TopicDatabase \<times> string option" where
  "processUserQuery env userText mode recentHistory slideContext orch db =
     (case parentChat orch of
        None \<Rightarrow> (Inl ParentNotInitialized, orch, db, None)
      | Some chat \<Rightarrow>
          (let a = analyzeTopicShift (parseJson env) (classifyResponse env) (currentTopicName orch);
               (workingTopicName, systemInjection, orch1) = detectShift a orch;
               (childAgentOutput, srcs) = childAgentRouting env mode userText db
           in case sendMessage env (finalPrompt systemInjection slideContext childAgentOutput userText) of
                Rejected \<Rightarrow> (Inl SendMessageRejected, orch1, db, None)
              | Resolved modelResponseText \<Rightarrow>
                  (let responseMessage = \<lparr>role = Model, msgText = modelResponseText,
                         sources = (if srcs \<noteq> [] then Some srcs else None)\<rparr>;
                       (db1, target) = triggerBackgroundGeneration (backgroundId env)
                         (backgroundNow env) workingTopicName db
                   in (Inr \<lparr>response = responseMessage, analysis = a, resultSources = srcs\<rparr>,
                       orch1, db1, target))))"

section \<open>The session component (StudySession)\<close>

text \<open>
  The state of the component that \<open>handleSendMessage\<close> reads and writes; the topic name
  held in React state is \<open>currentTopicName_ui\<close>, apart from the orchestrator's own field.
\<close>

record StudySession =
  inputMessage :: string
  chatMessages :: "ChatMessage list"
  slideChatHistory :: "ChatMessage list"
  isChatLoading :: bool
  currentTopicName_ui :: string
  agentMode :: AgentMode
  slides :: "LessonSlide list"
  currentSlideIndex :: nat
  orchestratorRef :: "AgentOrchestrator option"

definition errorMessage :: ChatMessage where
  "errorMessage = \<lparr>role = Model,
     msgText = ''Sorry, I encountered an error coordinating the agents.'', sources = None\<rparr>"

text \<open>
  \<open>const id = topicDB.getCurrentTopic()?.id; if (id) topicDB.addMessageToTopic(id, msg)\<close>,
  which the component does for the learner's message and for the tutor's.
\<close>

definition addMessageToCurrentTopic :: "ChatMessage \<Rightarrow> TopicDatabase \<Rightarrow> TopicDatabase" where
  "addMessageToCurrentTopic msg db =
     (case getCurrentTopic db of
        None \<Rightarrow> db
      | Some t \<Rightarrow> if topic_id t = [] then db else addMessageToTopic (topic_id t) msg db)"

text \<open>The store update of the component when the turn's analysis is a shift.\<close>

definition switchToTopic :: "string \<Rightarrow> int \<Rightarrow> string \<Rightarrow> TopicDatabase \<Rightarrow> TopicDatabase" where
  "switchToTopic newId now nm db =
     (case getTopicByName db nm of
        Some t \<Rightarrow> setCurrentTopic (topic_id t) db
      | None \<Rightarrow> (let (d, t) = createTopic newId now nm False db
                 in setCurrentTopic (topic_id t) d))"

text \<open>
  \<open>handleSendMessage\<close> returns the component, the store and the topic awaiting background
  material. Reading \<open>slides[currentSlideIndex].title\<close> out of range throws inside the
  \<open>try\<close> block, before the orchestrator is called.
\<close>

definition handleSendMessage ::
  "TurnEnv \<Rightarrow> StudySession \<Rightarrow> TopicDatabase \<Rightarrow> StudySession \<times> TopicDatabase \<times> string option" where
  "handleSendMessage env ui db =
     (case orchestratorRef ui of
        None \<Rightarrow> (ui, db, None)
      | Some orch \<Rightarrow>
          if trim (inputMessage ui) = [] then (ui, db, None)
          else
            (let userText = inputMessage ui;
                 userMsg = \<lparr>role = User, msgText = userText, sources = None\<rparr>;
                 ui1 = ui\<lparr>inputMessage := [], isChatLoading := True,
                         chatMessages := chatMessages ui @ [userMsg],
                         slideChatHistory := slideChatHistory ui @ [userMsg]\<rparr>;
                 db1 = addMessageToCurrentTopic userMsg db
             in case (if currentSlideIndex ui < length (slides ui)
                      then processUserQuery env userText (agentMode ui)
                             (sliceLast 5 (chatMessages ui))
                             (title (slides ui ! currentSlideIndex ui)) orch db1
                      else (Inl SlideUndefined, orch, db1, None)) of
                  (Inl e, orch1, db2, target) \<Rightarrow>
                    (ui1\<lparr>chatMessages := chatMessages ui1 @ [errorMessage],
                         isChatLoading := False, orchestratorRef := Some orch1\<rparr>, db2, target)
                | (Inr res, orch1, db2, target) \<Rightarrow>
                    (let shifted = (isNewTopic (analysis res)
                           \<and> topicName (analysis res) \<noteq> currentTopicName_ui ui);
                         nm = topicName (analysis res);
                         orch2 = (if shifted then updateTopic nm orch1 else orch1);
                         db3 = (if shifted then switchToTopic (shiftId env) (shiftNow env) nm db2
                                else db2);
                         ui2 = ui1\<lparr>chatMessages := chatMessages ui1 @ [response res],
                                 slideChatHistory := slideChatHistory ui1 @ [response res],
                                 isChatLoading := False,
                                 currentTopicName_ui :=
                                   (if shifted then nm else currentTopicName_ui ui),
                                 orchestratorRef := Some orch2\<rparr>
                     in (ui2, addMessageToCurrentTopic (response res) db3, target))))"

section \<open>Well-formed stores and scripted sessions\<close>

text \<open>
  What the store keeps true of its map when the identifiers it draws are not empty: the
  keys are distinct, none is the empty string, and every topic sits under its own
  \<open>id\<close>.
\<close>

definition wellKeyed :: "TopicDatabase \<Rightarrow> bool" where
  "wellKeyed db =
     (distinct (map fst (topics db))
      \<and> list_all (\<lambda>p. fst p \<noteq> [] \<and> topic_id (snd p) = fst p) (topics db))"

text \<open>
  A scripted environment: the classifier answers with a given analysis and the
  conversation engine with a given outcome, whatever the prompt.
\<close>

definition scriptedEnv :: "TopicAnalysis \<Rightarrow> string ApiResult \<Rightarrow> TurnEnv" where
  "scriptedEnv a reply =
     \<lparr>classifyResponse = Resolved (Some ''{}''), parseJson = (\<lambda>s. Some a),
      researchResponse = Rejected, sendMessage = (\<lambda>p. reply),
      backgroundId = ''id-bg'', backgroundNow = 3000, shiftId = ''id-2'', shiftNow = 2000\<rparr>"

text \<open>
  A session on a topic as \<open>initSession\<close> leaves it (one slide, tutor mode, a fresh
  orchestrator), with a message typed into the input field, and its store.
\<close>

definition sampleSession :: "string \<Rightarrow> string \<Rightarrow> StudySession" where
  "sampleSession topic typed =
     \<lparr>inputMessage = typed, chatMessages = [], slideChatHistory = [], isChatLoading = False,
      currentTopicName_ui = topic, agentMode = TUTOR,
      slides = [\<lparr>title = ''Introduction'', content = [], imagePrompt = [], imageUrl = None,
                 imageLoading = None\<rparr>],
      currentSlideIndex = 0, orchestratorRef = Some (newAgentOrchestrator Chat topic)\<rparr>"

definition sampleStore :: "string \<Rightarrow> TopicDatabase" where
  "sampleStore topic = reset ''id-1'' 1000 topic emptyDatabase"

text \<open>
  The session and store after a first turn on "History" in which the classifier reported a
  shift to "Biology" and the conversation engine rejected, with the next message typed in.
\<close>

definition afterFailedShift :: "StudySession \<times> TopicDatabase" where
  "afterFailedShift =
     (case handleSendMessage (scriptedEnv \<lparr>isNewTopic = True, topicName = ''Biology''\<rparr> Rejected)
             (sampleSession ''History'' ''What is a cell?'') (sampleStore ''History'') of
        (ui, db, tgt) \<Rightarrow> (ui\<lparr>inputMessage := ''Tell me more''\<rparr>, db))"

section \<open>Operations on a topic that is not in the store\<close>

lemma modifyTopic_missing: "map_of (topics db) topicId = None \<Longrightarrow> modifyTopic topicId f db = db"
  by (simp add: modifyTopic_def)

text \<open>
  Claim C6. When the identifier is not a key of the store, each of the seven mutators
  returns the store as it was (every field of it), and the three readers return the empty
  string, the empty list and the bundle of empty values. The model has no error branch for
  any of them, as the source has no \<open>throw\<close>.
\<close>

theorem missing_id_no_op:
  assumes "map_of (topics db) topicId = None"
  shows "setCurrentTopic topicId db = db
       \<and> addMessageToTopic topicId message db = db
       \<and> appendKnowledge topicId summary db = db
       \<and> addFlashcardsToTopic topicId cards db = db
       \<and> addQuizQuestionsToTopic topicId questions db = db
       \<and> setExamQuestionsForTopic topicId exam db = db
       \<and> updateNotebookContent topicId c db = db
       \<and> getKnowledgeBase db topicId = []
       \<and> getExamQuestionsForTopic db topicId = []
       \<and> getTopicContent db topicId = ([], [], [], [], [])"
  using assms
  by (simp add: setCurrentTopic_def hasTopic_def addMessageToTopic_def appendKnowledge_def
      addFlashcardsToTopic_def addQuizQuestionsToTopic_def setExamQuestionsForTopic_def
      updateNotebookContent_def getKnowledgeBase_def getExamQuestionsForTopic_def
      getTopicContent_def modifyTopic_missing)

theorem missing_id_no_op_witness:
  "map_of (topics (reset ''id-1'' 1000 ''Biology'' emptyDatabase)) ''id-2'' = None
   \<and> setCurrentTopic ''id-2'' (reset ''id-1'' 1000 ''Biology'' emptyDatabase)
       = reset ''id-1'' 1000 ''Biology'' emptyDatabase
   \<and> addMessageToTopic ''id-2'' \<lparr>role = User, msgText = ''hi'', sources = None\<rparr>
         (reset ''id-1'' 1000 ''Biology'' emptyDatabase)
       = reset ''id-1'' 1000 ''Biology'' emptyDatabase
   \<and> appendKnowledge ''id-2'' ''cells'' (reset ''id-1'' 1000 ''Biology'' emptyDatabase)
       = reset ''id-1'' 1000 ''Biology'' emptyDatabase
   \<and> updateNotebookContent ''id-2'' ''notes'' (reset ''id-1'' 1000 ''Biology'' emptyDatabase)
       = reset ''id-1'' 1000 ''Biology'' emptyDatabase
   \<and> getKnowledgeBase (reset ''id-1'' 1000 ''Biology'' emptyDatabase) ''id-2'' = []
   \<and> getExamQuestionsForTopic (reset ''id-1'' 1000 ''Biology'' emptyDatabase) ''id-2'' = []
   \<and> getTopicContent (reset ''id-1'' 1000 ''Biology'' emptyDatabase) ''id-2''
       = ([], [], [], [], [])"
proof -
  have h: "map_of (topics (reset ''id-1'' 1000 ''Biology'' emptyDatabase)) ''id-2'' = None"
    by code_simp
  from missing_id_no_op [OF h] show ?thesis using h by blast
qed

section \<open>Appending to the knowledge base\<close>

lemma map_of_modifyTopic:
  "map_of (topics (modifyTopic i f db)) j =
     (if j = i then map_option f (map_of (topics db) i) else map_of (topics db) j)"
  by (auto simp: modifyTopic_def AList.map_of_map_entry split: option.splits)








section \<open>Names and the main flag under the store operations\<close>

lemma map_entry_preserves:
  "(\<And>t. g (f t) = g t) \<Longrightarrow> map (\<lambda>p. g (snd p)) (AList.map_entry k f xs) = map (\<lambda>p. g (snd p)) xs"
  by (induction xs) auto

lemma topicValues_modifyTopic:
  assumes "\<And>t. g (f t) = g t"
  shows "map g (topicValues (modifyTopic i f db)) = map g (topicValues db)"
proof (cases "map_of (topics db) i")
  case None
  then show ?thesis by (simp add: modifyTopic_def)
next
  case (Some t)
  then show ?thesis
    using map_entry_preserves [of g f i "topics db", OF assms]
    by (simp add: modifyTopic_def topicValues_def comp_def)
qed

lemma update_fresh: "k \<notin> fst ` set xs \<Longrightarrow> AList.update k v xs = xs @ [(k, v)]"
  by (induction xs) auto

lemma image_update_subset:
  "(\<lambda>p. g (snd p)) ` set (AList.update k v xs) \<subseteq> insert (g v) ((\<lambda>p. g (snd p)) ` set xs)"
  by (induction xs) auto

lemma distinct_update:
  "distinct (map (\<lambda>p. g (snd p)) xs) \<Longrightarrow> g v \<notin> (\<lambda>p. g (snd p)) ` set xs
   \<Longrightarrow> distinct (map (\<lambda>p. g (snd p)) (AList.update k v xs))"
proof (induction xs)
  case Nil
  then show ?case by simp
next
  case (Cons p xs)
  show ?case
  proof (cases "fst p = k")
    case True
    with Cons.prems show ?thesis by simp
  next
    case False
    from Cons.prems have d: "distinct (map (\<lambda>p. g (snd p)) xs)"
      and n: "g v \<notin> (\<lambda>p. g (snd p)) ` set xs"
      and pv: "g (snd p) \<noteq> g v"
      and px: "g (snd p) \<notin> (\<lambda>p. g (snd p)) ` set xs"
      by auto
    from pv px image_update_subset [of g k v xs]
    have "g (snd p) \<notin> (\<lambda>p. g (snd p)) ` set (AList.update k v xs)" by blast
    with False Cons.IH [OF d n] show ?thesis by simp
  qed
qed

lemma find_name_None:
  "find (\<lambda>t. toLowerCase (name t) = toLowerCase nm) ts = None
   \<longleftrightarrow> toLowerCase nm \<notin> (\<lambda>t. toLowerCase (name t)) ` set ts"
  by (induction ts) auto

lemma find_name_unique:
  "distinct (map (\<lambda>t. toLowerCase (name t)) ts) \<Longrightarrow> t \<in> set ts
   \<Longrightarrow> toLowerCase nm = toLowerCase (name t)
   \<Longrightarrow> find (\<lambda>u. toLowerCase (name u) = toLowerCase nm) ts = Some t"
  by (induction ts) (auto simp: image_iff)

lemma namesDistinct_createTopic:
  assumes "namesDistinct db"
  shows "namesDistinct (fst (createTopic newId now nm isMain db))"
proof (cases "find (\<lambda>t. toLowerCase (name t) = toLowerCase nm) (topicValues db)")
  case None
  then have "toLowerCase nm \<notin> (\<lambda>p. toLowerCase (name (snd p))) ` set (topics db)"
    by (auto simp: find_name_None topicValues_def image_iff)
  with assms None show ?thesis
    using distinct_update [of "\<lambda>t. toLowerCase (name t)" "topics db"]
    by (simp add: createTopic_def namesDistinct_def topicValues_def comp_def Let_def)
next
  case (Some t)
  with assms show ?thesis by (simp add: createTopic_def)
qed

lemma topicValues_reset:
  "topicValues (reset newId now nm db) =
     [\<lparr>topic_id = newId, name = nm, timestamp = now, messages = [], flashcards = [],
       quizzes = [], examQuestions = [], isMainTopic = True, notebookContent = [],
       knowledgeBase = []\<rparr>]"
  by (simp add: reset_def createTopic_def topicValues_def Let_def)

lemma topicValues_sessionState [simp]: "topicValues (db\<lparr>sessionState := x\<rparr>) = topicValues db"
  by (simp add: topicValues_def)

lemma topicValues_currentTopicId [simp]: "topicValues (db\<lparr>currentTopicId := x\<rparr>) = topicValues db"
  by (simp add: topicValues_def)

lemma topicValues_setCurrentTopic [simp]: "topicValues (setCurrentTopic i db) = topicValues db"
  by (simp add: setCurrentTopic_def)

lemma namesDistinct_applyOp: "namesDistinct db \<Longrightarrow> namesDistinct (applyOp db op)"
proof (cases op)
  case (Reset newId now nm)
  then show ?thesis by (simp add: namesDistinct_def topicValues_reset)
next
  case (CreateTopic newId now nm isMain)
  assume "namesDistinct db"
  with CreateTopic show ?thesis by (simp add: namesDistinct_createTopic)
qed (simp_all add: namesDistinct_def topicValues_modifyTopic setSessionState_def
      addMessageToTopic_def appendKnowledge_def addFlashcardsToTopic_def
      addQuizQuestionsToTopic_def setExamQuestionsForTopic_def updateNotebookContent_def)

lemma namesDistinct_applyOps: "namesDistinct db \<Longrightarrow> namesDistinct (applyOps db ops)"
  unfolding applyOps_def by (induction ops arbitrary: db) (simp_all add: namesDistinct_applyOp)

lemma namesDistinct_empty: "namesDistinct emptyDatabase"
  by (simp add: namesDistinct_def emptyDatabase_def topicValues_def)

text \<open>
  Claim C2. In any store, \<open>createTopic\<close> with a name that equals the name of a topic of
  the store up to letter case returns a topic of the store with such a name and the store
  as it was: nothing is inserted. In every state that the store reaches from its creation
  by calls of its public methods, no two topics have names that are equal up to letter
  case, so there the topic returned is that very topic (the same identifier).
\<close>

theorem createTopic_case_insensitive:
  "(\<forall>db t nm. t \<in> set (topicValues db) \<and> toLowerCase nm = toLowerCase (name t)
        \<longrightarrow> (\<exists>t'. createTopic newId now nm isMain db = (db, t')
               \<and> t' \<in> set (topicValues db)
               \<and> toLowerCase (name t') = toLowerCase nm))
   \<and> namesDistinct (applyOps emptyDatabase ops)
   \<and> (\<forall>t nm. t \<in> set (topicValues (applyOps emptyDatabase ops))
          \<and> toLowerCase nm = toLowerCase (name t)
        \<longrightarrow> createTopic newId now nm isMain (applyOps emptyDatabase ops)
              = (applyOps emptyDatabase ops, t))"
proof -
  have g: "\<exists>t'. createTopic newId now nm isMain db = (db, t')
               \<and> t' \<in> set (topicValues db)
               \<and> toLowerCase (name t') = toLowerCase nm"
    if "t \<in> set (topicValues db)" and "toLowerCase nm = toLowerCase (name t)" for db t nm
  proof -
    from that have "find (\<lambda>u. toLowerCase (name u) = toLowerCase nm) (topicValues db) \<noteq> None"
      by (auto simp: find_None_iff)
    then obtain t' where f: "find (\<lambda>u. toLowerCase (name u) = toLowerCase nm) (topicValues db)
        = Some t'" by blast
    then have "t' \<in> set (topicValues db)" and "toLowerCase (name t') = toLowerCase nm"
      by (auto simp: find_Some_iff)
    with f show ?thesis by (simp add: createTopic_def)
  qed
  have d: "namesDistinct (applyOps emptyDatabase ops)"
    by (rule namesDistinct_applyOps [OF namesDistinct_empty])
  have "createTopic newId now nm isMain (applyOps emptyDatabase ops)
              = (applyOps emptyDatabase ops, t)"
    if "t \<in> set (topicValues (applyOps emptyDatabase ops))"
      and "toLowerCase nm = toLowerCase (name t)" for t nm
    using find_name_unique [OF d [unfolded namesDistinct_def] that]
    by (simp add: createTopic_def)
  with g d show ?thesis by blast
qed

theorem createTopic_case_insensitive_witness:
  "createTopic ''id-2'' 2000 ''quantum physics'' False
       (applyOps emptyDatabase [CreateTopic ''id-1'' 1000 ''Quantum Physics'' False])
     = (applyOps emptyDatabase [CreateTopic ''id-1'' 1000 ''Quantum Physics'' False],
        \<lparr>topic_id = ''id-1'', name = ''Quantum Physics'', timestamp = 1000, messages = [],
          flashcards = [], quizzes = [], examQuestions = [], isMainTopic = False,
          notebookContent = [], knowledgeBase = []\<rparr>)
   \<and> length (topicValues (fst (createTopic ''id-2'' 2000 ''quantum physics'' False
       (applyOps emptyDatabase [CreateTopic ''id-1'' 1000 ''Quantum Physics'' False])))) = 1"
proof -
  let ?t = "\<lparr>topic_id = ''id-1'', name = ''Quantum Physics'', timestamp = 1000, messages = [],
          flashcards = [], quizzes = [], examQuestions = [], isMainTopic = False,
          notebookContent = [], knowledgeBase = []\<rparr>"
  let ?db = "applyOps emptyDatabase [CreateTopic ''id-1'' 1000 ''Quantum Physics'' False]"
  have v: "topicValues ?db = [?t]"
    by code_simp
  have l: "toLowerCase ''quantum physics'' = toLowerCase (name ?t)"
    by code_simp
  from createTopic_case_insensitive
    [where ops = "[CreateTopic ''id-1'' 1000 ''Quantum Physics'' False]"
       and newId = "''id-2''" and now = 2000 and isMain = False]
  have "createTopic ''id-2'' 2000 ''quantum physics'' False ?db = (?db, ?t)"
    using v l by (metis list.set_intros(1))
  then show ?thesis using v by simp
qed

lemma length_filter_cong_map:
  "map P xs = map P ys \<Longrightarrow> length (filter P xs) = length (filter P ys)"
proof (induction xs arbitrary: ys)
  case Nil
  then show ?case by simp
next
  case (Cons x xs)
  then obtain y ys' where ys: "ys = y # ys'" by (cases ys) auto
  with Cons.prems have "P x = P y" "map P xs = map P ys'" by simp_all
  with Cons.IH [of ys'] ys show ?case by simp
qed

lemma mainCount_modifyTopic:
  assumes "\<And>t. isMainTopic (f t) = isMainTopic t"
  shows "mainCount (modifyTopic i f db) = mainCount db"
  unfolding mainCount_def
  by (rule length_filter_cong_map) (rule topicValues_modifyTopic [of isMainTopic f, OF assms])

lemma mainCount_createTopic:
  "newId \<notin> fst ` set (topics db)
   \<Longrightarrow> mainCount (fst (createTopic newId now nm False db)) = mainCount db"
  by (simp add: createTopic_def mainCount_def topicValues_def update_fresh Let_def
      split: option.splits)

lemma mainCount_reset: "mainCount (reset newId now nm db) = 1"
  by (simp add: mainCount_def topicValues_reset)

lemma mainCount_applyOp:
  assumes "mainCount db = 1" and "createsOnlyFreshNonMain db [op]"
  shows "mainCount (applyOp db op) = 1"
proof (cases op)
  case (Reset newId now nm)
  then show ?thesis by (simp add: mainCount_reset)
next
  case (CreateTopic newId now nm isMain)
  with assms show ?thesis by (cases isMain) (simp_all add: mainCount_createTopic)
next
  case (SetSessionState s)
  with assms show ?thesis by (simp add: mainCount_def setSessionState_def)
next
  case (SetCurrentTopic i)
  with assms show ?thesis by (simp add: mainCount_def)
qed (use assms in \<open>simp_all add: mainCount_modifyTopic addMessageToTopic_def
      appendKnowledge_def addFlashcardsToTopic_def addQuizQuestionsToTopic_def
      setExamQuestionsForTopic_def updateNotebookContent_def\<close>)

lemma createsOnlyFreshNonMain_Cons:
  "createsOnlyFreshNonMain db (op # ops)
   \<longleftrightarrow> createsOnlyFreshNonMain db [op] \<and> createsOnlyFreshNonMain (applyOp db op) ops"
  by (cases op) auto

lemma mainCount_applyOps:
  "mainCount db = 1 \<Longrightarrow> createsOnlyFreshNonMain db ops \<Longrightarrow> mainCount (applyOps db ops) = 1"
proof (induction ops arbitrary: db)
  case Nil
  then show ?case by (simp add: applyOps_def)
next
  case (Cons op ops)
  from Cons.prems(2) have a: "createsOnlyFreshNonMain db [op]"
    and b: "createsOnlyFreshNonMain (applyOp db op) ops"
    using createsOnlyFreshNonMain_Cons by blast+
  from Cons.IH [OF mainCount_applyOp [OF Cons.prems(1) a] b] show ?case
    by (simp add: applyOps_def)
qed

text \<open>
  Claim C3, as amended. \<open>reset\<close> leaves a store whose only topic is flagged main and has
  the given name, whatever the store held before. After it, every sequence of calls of the
  public methods in which \<open>createTopic\<close> is not asked for a main topic and draws
  identifiers that are not in use (further resets included) leaves exactly one topic
  flagged main.
\<close>

theorem one_main_topic:
  "topicValues (reset newId now nm db0) =
     [\<lparr>topic_id = newId, name = nm, timestamp = now, messages = [], flashcards = [],
       quizzes = [], examQuestions = [], isMainTopic = True, notebookContent = [],
       knowledgeBase = []\<rparr>]
   \<and> (createsOnlyFreshNonMain (reset newId now nm db0) ops
        \<longrightarrow> mainCount (applyOps (reset newId now nm db0) ops) = 1)"
  using topicValues_reset mainCount_applyOps [OF mainCount_reset] by blast

theorem one_main_topic_witness:
  "createsOnlyFreshNonMain (reset ''id-1'' 1000 ''Biology'' emptyDatabase)
     [CreateTopic ''id-2'' 2000 ''History'' False, SetCurrentTopic ''id-2'',
      AppendKnowledge ''id-2'' ''Rome'']
   \<and> mainCount (applyOps (reset ''id-1'' 1000 ''Biology'' emptyDatabase)
       [CreateTopic ''id-2'' 2000 ''History'' False, SetCurrentTopic ''id-2'',
        AppendKnowledge ''id-2'' ''Rome'']) = 1"
proof -
  have h: "createsOnlyFreshNonMain (reset ''id-1'' 1000 ''Biology'' emptyDatabase)
     [CreateTopic ''id-2'' 2000 ''History'' False, SetCurrentTopic ''id-2'',
      AppendKnowledge ''id-2'' ''Rome'']"
    by (simp add: reset_def createTopic_def emptyDatabase_def topicValues_def Let_def
        setCurrentTopic_def hasTopic_def appendKnowledge_def modifyTopic_def
        toLowerCase_def toLowerChar_def)
  with one_main_topic [of "''id-1''" 1000 "''Biology''" emptyDatabase
      "[CreateTopic ''id-2'' 2000 ''History'' False, SetCurrentTopic ''id-2'',
        AppendKnowledge ''id-2'' ''Rome'']"]
  show ?thesis by blast
qed

text \<open>
  Claim C3 as stated fails: \<open>createTopic\<close> is a public method and takes the main flag
  from its caller, so one call after a reset gives the store a second main topic.
\<close>

theorem one_main_topic_counterexample:
  "mainCount (applyOps (reset ''id-1'' 1000 ''Biology'' emptyDatabase)
     [CreateTopic ''id-2'' 2000 ''History'' True]) = 2
   \<and> mainCount (applyOps (reset ''id-1'' 1000 ''Biology'' emptyDatabase)
     [CreateTopic ''id-2'' 2000 ''History'' True]) \<noteq> 1"
  by (simp add: applyOps_def mainCount_def reset_def createTopic_def emptyDatabase_def
      topicValues_def Let_def toLowerCase_def toLowerChar_def)

section \<open>The notebook agent\<close>

lemma trim_empty_iff: "trim s = [] \<longleftrightarrow> (\<forall>c\<in>set s. isWhiteSpace c)"
proof
  assume "trim s = []"
  then have e: "\<forall>x\<in>set (dropWhile isWhiteSpace s). isWhiteSpace x"
    by (simp add: trim_def)
  show "\<forall>c\<in>set s. isWhiteSpace c"
  proof (cases "dropWhile isWhiteSpace s")
    case Nil
    then show ?thesis by simp
  next
    case (Cons c cs)
    then have "\<not> isWhiteSpace c" by (metis hd_dropWhile list.discI list.sel(1))
    moreover from e Cons have "isWhiteSpace c" by simp
    ultimately show ?thesis by simp
  qed
next
  assume "\<forall>c\<in>set s. isWhiteSpace c"
  then show "trim s = []" by (auto simp: trim_def dest: set_dropWhileD)
qed

lemma spaces_8: "spaces 8 = ''        ''"
  by (simp add: spaces_def eval_nat_numeral)

text \<open>
  Claim C9. In notebook mode the child-agent context is computed from the notes of the
  store's current topic (no notes when there is no current topic). When every character of
  the notes is white space (so also when they are empty) the context is one fixed text,
  which says that the user has not uploaded any notes yet and tells the tutor to remind
  them to paste their content; it depends neither on the notes nor on the question.
  Otherwise the context is the header, then the leading 20000 characters of the notes at
  most (a prefix of the notes, all of them when they are shorter), then the instruction
  to answer the user's question strictly based on the notes and to say so if the answer
  is not in them. No sources are returned.
\<close>

theorem notebook_context:
  \<open>childAgentRouting env NOTEBOOK userText db =
     (if list_all isWhiteSpace
           (case getCurrentTopic db of None \<Rightarrow> [] | Some t \<Rightarrow> notebookContent t)
      then ''[DATA FROM NOTEBOOK AGENT]: The user has not uploaded any notes yet. Remind them to paste their content to use this feature.''
      else [CHR 0x0A] @ ''        [DATA FROM NOTEBOOK AGENT]:''
         @ [CHR 0x0A] @ ''        The user has provided the following personal notes/documents:''
         @ [CHR 0x0A] @ ''        """''
         @ [CHR 0x0A] @ ''        ''
         @ take 20000 (case getCurrentTopic db of None \<Rightarrow> [] | Some t \<Rightarrow> notebookContent t)
         @ '' ... (content truncated for context)''
         @ [CHR 0x0A] @ ''        """''
         @ [CHR 0x0A] @ ''        ''
         @ [CHR 0x0A] @ ''        Instructions: Answer the user's question "'' @ userText
         @ ''" strictly based on the provided notes above. If the answer isn't in the notes, say so.''
         @ [CHR 0x0A] @ ''        '',
      [])
   \<and> length (take 20000
         (case getCurrentTopic db of None \<Rightarrow> [] | Some t \<Rightarrow> notebookContent t)) \<le> 20000
   \<and> take 20000 (case getCurrentTopic db of None \<Rightarrow> [] | Some t \<Rightarrow> notebookContent t)
       = (case getCurrentTopic db of
            None \<Rightarrow> []
          | Some t \<Rightarrow> if length (notebookContent t) \<le> 20000 then notebookContent t
                      else take 20000 (notebookContent t))\<close>
proof -
  have "notebookOutput userText s =
      (if list_all isWhiteSpace s then notebookEmptyOutput
       else notebookHeader @ take 20000 s @ notebookInstruction userText)" for s
    using trim_empty_iff [of s]
    by (simp add: notebookOutput_def substring0_def notebookBudget_def list_all_iff)
  then show ?thesis
    by (simp add: childAgentRouting_def Let_def notebookEmptyOutput_def notebookHeader_def
        notebookInstruction_def newline_def spaces_8 split: option.splits)
qed

theorem notebook_context_witness:
  \<open>list_all isWhiteSpace ''  ''
   \<and> childAgentRouting (scriptedEnv \<lparr>isNewTopic = False, topicName = []\<rparr> Rejected) NOTEBOOK
         ''What makes ATP?''
         (updateNotebookContent ''id-1'' ''  '' (reset ''id-1'' 1000 ''Biology'' emptyDatabase))
       = (''[DATA FROM NOTEBOOK AGENT]: The user has not uploaded any notes yet. Remind them to paste their content to use this feature.'',
          [])
   \<and> \<not> list_all isWhiteSpace ''Mitochondria make ATP.''
   \<and> childAgentRouting (scriptedEnv \<lparr>isNewTopic = False, topicName = []\<rparr> Rejected) NOTEBOOK
         ''What makes ATP?''
         (updateNotebookContent ''id-1'' ''Mitochondria make ATP.''
           (reset ''id-1'' 1000 ''Biology'' emptyDatabase))
       = ([CHR 0x0A] @ ''        [DATA FROM NOTEBOOK AGENT]:''
          @ [CHR 0x0A] @ ''        The user has provided the following personal notes/documents:''
          @ [CHR 0x0A] @ ''        """''
          @ [CHR 0x0A] @ ''        Mitochondria make ATP. ... (content truncated for context)''
          @ [CHR 0x0A] @ ''        """''
          @ [CHR 0x0A] @ ''        ''
          @ [CHR 0x0A] @ ''        Instructions: Answer the user's question "What makes ATP?" strictly based on the provided notes above. If the answer isn't in the notes, say so.''
          @ [CHR 0x0A] @ ''        '',
          [])\<close>
proof -
  let ?env = "scriptedEnv \<lparr>isNewTopic = False, topicName = []\<rparr> Rejected"
  have c1: "getCurrentTopic
        (updateNotebookContent ''id-1'' s (reset ''id-1'' 1000 ''Biology'' emptyDatabase))
      = Some \<lparr>topic_id = ''id-1'', name = ''Biology'', timestamp = 1000, messages = [],
          flashcards = [], quizzes = [], examQuestions = [], isMainTopic = True,
          notebookContent = s, knowledgeBase = []\<rparr>" for s
    by (simp add: getCurrentTopic_def updateNotebookContent_def modifyTopic_def reset_def
        createTopic_def emptyDatabase_def topicValues_def Let_def)
  have w1: "list_all isWhiteSpace ''  ''"
    by (simp add: isWhiteSpace_def)
  have w2: "\<not> list_all isWhiteSpace ''Mitochondria make ATP.''"
    by (simp add: isWhiteSpace_def)
  from notebook_context [of ?env "''What makes ATP?''"
      "updateNotebookContent ''id-1'' ''  '' (reset ''id-1'' 1000 ''Biology'' emptyDatabase)"]
  have r1: "childAgentRouting ?env NOTEBOOK ''What makes ATP?''
        (updateNotebookContent ''id-1'' ''  '' (reset ''id-1'' 1000 ''Biology'' emptyDatabase))
       = (''[DATA FROM NOTEBOOK AGENT]: The user has not uploaded any notes yet. Remind them to paste their content to use this feature.'',
          [])"
    by (simp add: c1 isWhiteSpace_def)
  from notebook_context [of ?env "''What makes ATP?''"
      "updateNotebookContent ''id-1'' ''Mitochondria make ATP.''
          (reset ''id-1'' 1000 ''Biology'' emptyDatabase)"]
  have r2: \<open>childAgentRouting ?env NOTEBOOK ''What makes ATP?''
         (updateNotebookContent ''id-1'' ''Mitochondria make ATP.''
           (reset ''id-1'' 1000 ''Biology'' emptyDatabase))
       = ([CHR 0x0A] @ ''        [DATA FROM NOTEBOOK AGENT]:''
          @ [CHR 0x0A] @ ''        The user has provided the following personal notes/documents:''
          @ [CHR 0x0A] @ ''        """''
          @ [CHR 0x0A] @ ''        Mitochondria make ATP. ... (content truncated for context)''
          @ [CHR 0x0A] @ ''        """''
          @ [CHR 0x0A] @ ''        ''
          @ [CHR 0x0A] @ ''        Instructions: Answer the user's question "What makes ATP?" strictly based on the provided notes above. If the answer isn't in the notes, say so.''
          @ [CHR 0x0A] @ ''        '',
          [])\<close>
    by (simp add: c1 isWhiteSpace_def)
  from w1 w2 r1 r2 show ?thesis by blast
qed

section \<open>The order of \<open>getAllTopics\<close>\<close>

lemma insertBy_main: "isMainTopic x \<Longrightarrow> insertBy compareTopics x ys = x # ys"
  by (cases ys) (simp_all add: compareTopics_def)

lemma insertBy_after_mains:
  "\<not> isMainTopic x \<Longrightarrow> \<forall>m\<in>set ms. isMainTopic m
   \<Longrightarrow> insertBy compareTopics x (ms @ ys) = ms @ insertBy compareTopics x ys"
  by (induction ms) (simp_all add: compareTopics_def)

lemma insertBy_timestamp:
  "\<not> isMainTopic x \<Longrightarrow> \<forall>y\<in>set ys. \<not> isMainTopic y \<Longrightarrow> timestamp x \<notin> timestamp ` set ys
   \<Longrightarrow> insertBy compareTopics x ys = insort_key timestamp x ys"
  by (induction ys) (auto simp: compareTopics_def)

lemma sort_key_snoc:
  "f x \<notin> f ` set ys \<Longrightarrow> sort_key f (ys @ [x]) = insort_key f x (sort_key f ys)"
proof (induction ys)
  case Nil
  then show ?case by simp
next
  case (Cons y ys)
  then have "f y \<noteq> f x" and "f x \<notin> f ` set ys" by auto
  with Cons.IH show ?case by (simp add: insort_key_left_comm)
qed

text \<open>Main topics in insertion order, then the others by creation time.\<close>

lemma insertBy_canonical:
  assumes "length (filter isMainTopic (zs @ [x])) \<le> 1"
    and "distinct (map timestamp (filter (\<lambda>t. \<not> isMainTopic t) (zs @ [x])))"
  shows "insertBy compareTopics x
           (filter isMainTopic zs @ sort_key timestamp (filter (\<lambda>t. \<not> isMainTopic t) zs))
         = filter isMainTopic (zs @ [x])
           @ sort_key timestamp (filter (\<lambda>t. \<not> isMainTopic t) (zs @ [x]))"
proof (cases "isMainTopic x")
  case True
  with assms(1) have "filter isMainTopic zs = []" by simp
  with True show ?thesis by (simp add: insertBy_main)
next
  case False
  let ?N = "filter (\<lambda>t. \<not> isMainTopic t) zs"
  from False assms(2) have fresh: "timestamp x \<notin> timestamp ` set ?N" by auto
  have "insertBy compareTopics x (filter isMainTopic zs @ sort_key timestamp ?N)
        = filter isMainTopic zs @ insertBy compareTopics x (sort_key timestamp ?N)"
    using False by (simp add: insertBy_after_mains)
  also have "insertBy compareTopics x (sort_key timestamp ?N)
        = insort_key timestamp x (sort_key timestamp ?N)"
    using False fresh by (intro insertBy_timestamp) auto
  also have "\<dots> = sort_key timestamp (?N @ [x])"
    using fresh by (simp add: sort_key_snoc)
  finally show ?thesis using False by simp
qed

lemma foldl_insertBy_canonical:
  "length (filter isMainTopic (zs @ xs)) \<le> 1
   \<Longrightarrow> distinct (map timestamp (filter (\<lambda>t. \<not> isMainTopic t) (zs @ xs)))
   \<Longrightarrow> foldl (\<lambda>acc x. insertBy compareTopics x acc)
         (filter isMainTopic zs @ sort_key timestamp (filter (\<lambda>t. \<not> isMainTopic t) zs)) xs
       = filter isMainTopic (zs @ xs)
         @ sort_key timestamp (filter (\<lambda>t. \<not> isMainTopic t) (zs @ xs))"
proof (induction xs arbitrary: zs)
  case Nil
  then show ?case by simp
next
  case (Cons x xs)
  from Cons.prems have a: "length (filter isMainTopic (zs @ [x])) \<le> 1"
    and b: "distinct (map timestamp (filter (\<lambda>t. \<not> isMainTopic t) (zs @ [x])))"
    by (auto split: if_splits)
  from Cons.prems have c: "length (filter isMainTopic ((zs @ [x]) @ xs)) \<le> 1"
    and d: "distinct (map timestamp (filter (\<lambda>t. \<not> isMainTopic t) ((zs @ [x]) @ xs)))"
    by simp_all
  show ?case
    using Cons.IH [OF c d] insertBy_canonical [OF a b] by simp
qed

lemma sortBy_compareTopics:
  assumes "length (filter isMainTopic xs) \<le> 1"
    and "distinct (map timestamp (filter (\<lambda>t. \<not> isMainTopic t) xs))"
  shows "sortBy compareTopics xs
         = filter isMainTopic xs @ sort_key timestamp (filter (\<lambda>t. \<not> isMainTopic t) xs)"
  using foldl_insertBy_canonical [of "[]" xs] assms by (simp add: sortBy_def)

lemma sort_key_mset_unique:
  assumes "mset xs = mset ys" and "distinct (map f xs)"
  shows "sort_key f xs = sort_key f ys"
proof -
  have st: "set xs = set ys"
    using assms(1) by (rule mset_eq_setD)
  have dy: "distinct (map f ys)"
    using assms by (metis mset_eq_imp_distinct_iff mset_map)
  have "map f (sort_key f xs) = map f (sort_key f ys)"
  proof (rule sorted_distinct_set_unique)
    show "sorted (map f (sort_key f xs))" "sorted (map f (sort_key f ys))" by simp_all
    show "distinct (map f (sort_key f xs))" using assms(2) by (simp add: distinct_map)
    show "distinct (map f (sort_key f ys))" using dy by (simp add: distinct_map)
    show "set (map f (sort_key f xs)) = set (map f (sort_key f ys))"
      using st by simp
  qed
  moreover have "inj_on f (set (sort_key f xs) \<union> set (sort_key f ys))"
    using assms(2) st by (simp add: distinct_map)
  ultimately show ?thesis by (simp add: inj_on_map_eq_map)
qed

text \<open>
  Claim C4. For a store that holds exactly one main topic \<open>A\<close> and whose other topics have
  pairwise distinct creation times, \<open>getAllTopics\<close> returns \<open>A\<close> first and then the other
  topics in ascending order of creation time. The result does not depend on the order of
  insertion into the map: a store that holds the same topics in another order gives the
  same list.
\<close>

theorem getAllTopics_order:
  assumes "filter isMainTopic (topicValues db) = [A]"
    and "distinct (map timestamp (filter (\<lambda>t. \<not> isMainTopic t) (topicValues db)))"
  shows "getAllTopics db
           = A # sort_key timestamp (filter (\<lambda>t. \<not> isMainTopic t) (topicValues db))
       \<and> sorted (map timestamp (tl (getAllTopics db)))
       \<and> mset (getAllTopics db) = mset (topicValues db)
       \<and> (\<forall>db'. mset (topicValues db') = mset (topicValues db)
             \<longrightarrow> getAllTopics db' = getAllTopics db)"
proof -
  let ?N = "\<lambda>d. filter (\<lambda>t. \<not> isMainTopic t) (topicValues d)"
  have eq: "getAllTopics db = A # sort_key timestamp (?N db)"
    using sortBy_compareTopics [of "topicValues db"] assms by (simp add: getAllTopics_def)
  have ms: "mset (getAllTopics db) = mset (topicValues db)"
  proof -
    have "mset (topicValues db)
          = mset (filter isMainTopic (topicValues db)) + mset (?N db)"
      by (simp only: mset_filter multiset_partition [symmetric])
    with eq assms(1) show ?thesis by simp
  qed
  have indep: "getAllTopics db' = getAllTopics db"
    if m: "mset (topicValues db') = mset (topicValues db)" for db'
  proof -
    from m have "mset (filter isMainTopic (topicValues db')) = mset [A]"
      using assms(1) by (metis mset_filter)
    then have a': "filter isMainTopic (topicValues db') = [A]"
      by (metis mset.simps(1) mset.simps(2) mset_single_iff_right add_mset_eq_single
          mset_zero_iff_right list.exhaust)
    from m have n: "mset (?N db') = mset (?N db)" by (metis mset_filter)
    then have d': "distinct (map timestamp (?N db'))"
      using assms(2) by (metis mset_eq_imp_distinct_iff mset_map)
    have "getAllTopics db' = A # sort_key timestamp (?N db')"
      using sortBy_compareTopics [of "topicValues db'"] a' d' by (simp add: getAllTopics_def)
    with eq sort_key_mset_unique [OF n d'] show ?thesis by simp
  qed
  have sd: "sorted (map timestamp (tl (getAllTopics db)))"
    by (simp add: eq)
  from eq sd ms indep show ?thesis by blast
qed

theorem getAllTopics_order_witness:
  "filter isMainTopic (topicValues (applyOps emptyDatabase
       [Reset ''id-a'' 5000 ''A'',
        CreateTopic ''id-c'' 5001 ''C'' False, CreateTopic ''id-b'' 5002 ''B'' False]))
     = [\<lparr>topic_id = ''id-a'', name = ''A'', timestamp = 5000, messages = [], flashcards = [],
         quizzes = [], examQuestions = [], isMainTopic = True, notebookContent = [],
         knowledgeBase = []\<rparr>]
   \<and> distinct (map timestamp (filter (\<lambda>t. \<not> isMainTopic t) (topicValues (applyOps emptyDatabase
       [Reset ''id-a'' 5000 ''A'',
        CreateTopic ''id-c'' 5001 ''C'' False, CreateTopic ''id-b'' 5002 ''B'' False]))))
   \<and> map name (getAllTopics (applyOps emptyDatabase
       [Reset ''id-a'' 5000 ''A'',
        CreateTopic ''id-c'' 5001 ''C'' False, CreateTopic ''id-b'' 5002 ''B'' False]))
     = [''A'', ''C'', ''B'']"
proof -
  let ?db = "applyOps emptyDatabase
       [Reset ''id-a'' 5000 ''A'',
        CreateTopic ''id-c'' 5001 ''C'' False, CreateTopic ''id-b'' 5002 ''B'' False]"
  let ?A = "\<lparr>topic_id = ''id-a'', name = ''A'', timestamp = 5000, messages = [], flashcards = [],
         quizzes = [], examQuestions = [], isMainTopic = True, notebookContent = [],
         knowledgeBase = []\<rparr>"
  have v: "topicValues ?db = [?A,
      \<lparr>topic_id = ''id-c'', name = ''C'', timestamp = 5001, messages = [], flashcards = [],
         quizzes = [], examQuestions = [], isMainTopic = False, notebookContent = [],
         knowledgeBase = []\<rparr>,
      \<lparr>topic_id = ''id-b'', name = ''B'', timestamp = 5002, messages = [], flashcards = [],
         quizzes = [], examQuestions = [], isMainTopic = False, notebookContent = [],
         knowledgeBase = []\<rparr>]"
    by (simp add: applyOps_def reset_def createTopic_def emptyDatabase_def topicValues_def
        Let_def toLowerCase_def toLowerChar_def)
  have h1: "filter isMainTopic (topicValues ?db) = [?A]"
    by (simp add: v)
  have h2: "distinct (map timestamp (filter (\<lambda>t. \<not> isMainTopic t) (topicValues ?db)))"
    by (simp add: v)
  from getAllTopics_order [OF h1 h2]
  have "getAllTopics ?db
      = ?A # sort_key timestamp (filter (\<lambda>t. \<not> isMainTopic t) (topicValues ?db))"
    by blast
  then have "map name (getAllTopics ?db) = [''A'', ''C'', ''B'']"
    by (simp add: v)
  with h1 h2 show ?thesis by blast
qed

section \<open>The store during a turn\<close>

lemma wellKeyed_lookup:
  assumes "wellKeyed db" and "map_of (topics db) k = Some t"
  shows "topic_id t = k" and "k \<noteq> []"
proof -
  from assms(2) have "(k, t) \<in> set (topics db)" by (rule map_of_SomeD)
  with assms(1) show "topic_id t = k" and "k \<noteq> []"
    by (auto simp: wellKeyed_def list_all_iff)
qed

lemma wellKeyed_value:
  assumes "wellKeyed db" and "t \<in> set (topicValues db)"
  shows "map_of (topics db) (topic_id t) = Some t" and "topic_id t \<noteq> []"
proof -
  from assms(2) obtain k where kt: "(k, t) \<in> set (topics db)"
    by (auto simp: topicValues_def)
  with assms(1) have k: "k = topic_id t" "k \<noteq> []"
    by (auto simp: wellKeyed_def list_all_iff)
  from assms(1) have "distinct (map fst (topics db))" by (simp add: wellKeyed_def)
  with kt k show "map_of (topics db) (topic_id t) = Some t" by simp
  from k show "topic_id t \<noteq> []" by simp
qed

lemma map_entry_keys: "map fst (AList.map_entry k f xs) = map fst xs"
  by (induction xs) auto

lemma list_all_map_entry:
  "list_all (\<lambda>p. fst p \<noteq> [] \<and> topic_id (snd p) = fst p) xs
   \<Longrightarrow> (\<And>t. topic_id (f t) = topic_id t)
   \<Longrightarrow> list_all (\<lambda>p. fst p \<noteq> [] \<and> topic_id (snd p) = fst p) (AList.map_entry k f xs)"
  by (induction xs) auto

lemma wellKeyed_modifyTopic:
  "wellKeyed db \<Longrightarrow> (\<And>t. topic_id (f t) = topic_id t) \<Longrightarrow> wellKeyed (modifyTopic i f db)"
  by (auto simp: wellKeyed_def modifyTopic_def map_entry_keys list_all_map_entry
      split: option.splits)

lemma list_all_update:
  "list_all (\<lambda>p. fst p \<noteq> [] \<and> topic_id (snd p) = fst p) xs \<Longrightarrow> k \<noteq> [] \<Longrightarrow> topic_id v = k
   \<Longrightarrow> list_all (\<lambda>p. fst p \<noteq> [] \<and> topic_id (snd p) = fst p) (AList.update k v xs)"
  by (induction xs) auto

lemma wellKeyed_createTopic:
  "wellKeyed db \<Longrightarrow> newId \<noteq> [] \<Longrightarrow> wellKeyed (fst (createTopic newId now nm isMain db))"
  by (auto simp: wellKeyed_def createTopic_def Let_def AList.distinct_update list_all_update
      split: option.splits)

lemma wellKeyed_reset: "newId \<noteq> [] \<Longrightarrow> wellKeyed (reset newId now nm db)"
  by (simp add: wellKeyed_def reset_def createTopic_def topicValues_def Let_def)

lemma getCurrentTopic_reset:
  "newId \<noteq> [] \<Longrightarrow> getCurrentTopic (reset newId now nm db) =
     Some \<lparr>topic_id = newId, name = nm, timestamp = now, messages = [], flashcards = [],
       quizzes = [], examQuestions = [], isMainTopic = True, notebookContent = [],
       knowledgeBase = []\<rparr>"
  by (simp add: getCurrentTopic_def reset_def createTopic_def topicValues_def Let_def)

lemma currentTopicId_modifyTopic [simp]:
  "currentTopicId (modifyTopic i f db) = currentTopicId db"
  by (simp add: modifyTopic_def split: option.splits)

lemma getCurrentTopic_modifyTopic:
  "getCurrentTopic (modifyTopic i f db) =
     (case getCurrentTopic db of
        None \<Rightarrow> None
      | Some t \<Rightarrow> if currentTopicId db = Some i then Some (f t) else Some t)"
  by (auto simp: getCurrentTopic_def map_of_modifyTopic split: option.splits)

text \<open>Adding a message to the current topic of a well-keyed store.\<close>

lemma addMessageToCurrentTopic_none:
  "getCurrentTopic db = None \<Longrightarrow> addMessageToCurrentTopic m db = db"
  by (simp add: addMessageToCurrentTopic_def)

lemma currentTopicId_addMessageToCurrentTopic [simp]:
  "currentTopicId (addMessageToCurrentTopic m db) = currentTopicId db"
  by (simp add: addMessageToCurrentTopic_def addMessageToTopic_def split: option.splits)

lemma addMessageToCurrentTopic_active:
  assumes "wellKeyed db" and "getCurrentTopic db = Some t"
  shows "addMessageToCurrentTopic m db = addMessageToTopic (topic_id t) m db"
    and "currentTopicId db = Some (topic_id t)"
    and "map_of (topics (addMessageToCurrentTopic m db)) j =
          (if j = topic_id t then Some (t\<lparr>messages := messages t @ [m]\<rparr>)
           else map_of (topics db) j)"
    and "getCurrentTopic (addMessageToCurrentTopic m db) = Some (t\<lparr>messages := messages t @ [m]\<rparr>)"
    and "wellKeyed (addMessageToCurrentTopic m db)"
proof -
  from assms(2) obtain k where k: "currentTopicId db = Some k" "k \<noteq> []"
    "map_of (topics db) k = Some t"
    by (auto simp: getCurrentTopic_def split: option.splits if_splits)
  with wellKeyed_lookup [OF assms(1) k(3)] have id: "topic_id t = k" by simp
  with k show c: "currentTopicId db = Some (topic_id t)" by simp
  from id k assms(2) show eq: "addMessageToCurrentTopic m db = addMessageToTopic (topic_id t) m db"
    by (simp add: addMessageToCurrentTopic_def)
  from id k show "map_of (topics (addMessageToCurrentTopic m db)) j =
          (if j = topic_id t then Some (t\<lparr>messages := messages t @ [m]\<rparr>)
           else map_of (topics db) j)"
    by (simp add: eq addMessageToTopic_def map_of_modifyTopic)
  from assms(2) c show "getCurrentTopic (addMessageToCurrentTopic m db)
      = Some (t\<lparr>messages := messages t @ [m]\<rparr>)"
    by (simp add: eq addMessageToTopic_def getCurrentTopic_modifyTopic)
  from assms(1) show "wellKeyed (addMessageToCurrentTopic m db)"
    by (simp add: eq addMessageToTopic_def wellKeyed_modifyTopic)
qed

lemma getCurrentTopic_addMessageToCurrentTopic_None:
  "getCurrentTopic (addMessageToCurrentTopic m db) = None \<longleftrightarrow> getCurrentTopic db = None"
  by (auto simp: addMessageToCurrentTopic_def addMessageToTopic_def getCurrentTopic_modifyTopic
      split: option.splits if_splits)

lemma keys_addMessageToCurrentTopic:
  "map fst (topics (addMessageToCurrentTopic m db)) = map fst (topics db)"
  by (simp add: addMessageToCurrentTopic_def addMessageToTopic_def modifyTopic_def
      map_entry_keys split: option.splits)

lemma names_addMessageToCurrentTopic:
  "map name (topicValues (addMessageToCurrentTopic m db)) = map name (topicValues db)"
  by (simp add: addMessageToCurrentTopic_def addMessageToTopic_def topicValues_modifyTopic
      split: option.splits)

text \<open>The background generation leaves a store with a current topic as it is.\<close>

lemma triggerBackgroundGeneration_active:
  "getCurrentTopic db = Some t \<Longrightarrow>
   triggerBackgroundGeneration newId now nm db
     = (db, if topic_id t = [] then None else Some (topic_id t))"
  by (simp add: triggerBackgroundGeneration_def)

lemma processUserQuery_active:
  assumes "getCurrentTopic db = Some t"
  shows "fst (snd (snd (processUserQuery env userText mode hist slideContext orch db))) = db"
  using assms
  by (simp add: processUserQuery_def triggerBackgroundGeneration_active Let_def
      split: option.splits prod.splits ApiResult.splits)

lemma processUserQuery_resolved:
  assumes "parentChat orch = Some chat"
    and "\<And>p. sendMessage env p = Resolved (reply p)"
    and "getCurrentTopic db = Some t"
  shows "\<exists>r srcs tgt. processUserQuery env userText mode hist slideContext orch db
      = (Inr \<lparr>response = \<lparr>role = Model, msgText = r, sources = srcs\<rparr>,
              analysis = analyzeTopicShift (parseJson env) (classifyResponse env)
                           (currentTopicName orch),
              resultSources = snd (childAgentRouting env mode userText db)\<rparr>,
         snd (snd (detectShift (analyzeTopicShift (parseJson env) (classifyResponse env)
                           (currentTopicName orch)) orch)), db, tgt)"
  using assms
  by (simp add: processUserQuery_def triggerBackgroundGeneration_active Let_def
      split: prod.splits)


lemma find_map_entry:
  "(\<And>t. P (f t) = P t) \<Longrightarrow> (\<And>t. h (f t) = h t)
   \<Longrightarrow> map_option h (find P (map snd (AList.map_entry k f xs)))
       = map_option h (find P (map snd xs))"
  by (induction xs) auto

lemma getTopicByName_addMessageToCurrentTopic:
  "map_option topic_id (getTopicByName (addMessageToCurrentTopic m db) nm)
     = map_option topic_id (getTopicByName db nm)"
proof (cases "getCurrentTopic db")
  case None
  then show ?thesis by (simp add: addMessageToCurrentTopic_def)
next
  case (Some t)
  show ?thesis
  proof (cases "map_of (topics db) (topic_id t)")
    case None
    then show ?thesis
      by (simp add: addMessageToCurrentTopic_def addMessageToTopic_def modifyTopic_def Some)
  next
    case (Some u)
    then show ?thesis
      using find_map_entry [of "\<lambda>t. toLowerCase (name t) = toLowerCase nm"
          "\<lambda>t. t\<lparr>messages := messages t @ [m]\<rparr>" topic_id "topic_id t" "topics db"]
      by (simp add: addMessageToCurrentTopic_def addMessageToTopic_def modifyTopic_def
          getTopicByName_def topicValues_def \<open>getCurrentTopic db = Some t\<close>)
  qed
qed

lemma getTopicByName_found:
  "getTopicByName db nm = Some t
   \<Longrightarrow> t \<in> set (topicValues db) \<and> toLowerCase (name t) = toLowerCase nm"
  by (auto simp: getTopicByName_def find_Some_iff)

lemma wellKeyed_currentTopicId [simp]: "wellKeyed (db\<lparr>currentTopicId := x\<rparr>) = wellKeyed db"
  by (simp add: wellKeyed_def)

lemma switchToTopic_found:
  assumes "wellKeyed db" and "getTopicByName db nm = Some t"
  shows "switchToTopic newId now nm db = db\<lparr>currentTopicId := Some (topic_id t)\<rparr>"
    and "getCurrentTopic (switchToTopic newId now nm db) = Some t"
    and "wellKeyed (switchToTopic newId now nm db)"
proof -
  from getTopicByName_found [OF assms(2)] have "t \<in> set (topicValues db)" by simp
  from wellKeyed_value [OF assms(1) this]
  have l: "map_of (topics db) (topic_id t) = Some t" and n: "topic_id t \<noteq> []" by simp_all
  from l assms(2) show eq: "switchToTopic newId now nm db = db\<lparr>currentTopicId := Some (topic_id t)\<rparr>"
    by (simp add: switchToTopic_def setCurrentTopic_def hasTopic_def)
  from l n show "getCurrentTopic (switchToTopic newId now nm db) = Some t"
    by (simp add: eq getCurrentTopic_def)
  from assms(1) show "wellKeyed (switchToTopic newId now nm db)"
    by (simp add: eq)
qed

lemma switchToTopic_new:
  assumes "wellKeyed db" and "getTopicByName db nm = None"
    and "newId \<noteq> []" and "newId \<notin> fst ` set (topics db)"
  shows "topics (switchToTopic newId now nm db) = topics db @ [(newId,
           \<lparr>topic_id = newId, name = nm, timestamp = now, messages = [], flashcards = [],
            quizzes = [], examQuestions = [], isMainTopic = False, notebookContent = [],
            knowledgeBase = []\<rparr>)]"
    and "getCurrentTopic (switchToTopic newId now nm db) =
           Some \<lparr>topic_id = newId, name = nm, timestamp = now, messages = [], flashcards = [],
            quizzes = [], examQuestions = [], isMainTopic = False, notebookContent = [],
            knowledgeBase = []\<rparr>"
    and "wellKeyed (switchToTopic newId now nm db)"
proof -
  let ?new = "\<lparr>topic_id = newId, name = nm, timestamp = now, messages = [], flashcards = [],
            quizzes = [], examQuestions = [], isMainTopic = False, notebookContent = [],
            knowledgeBase = []\<rparr>"
  from assms(2) have f: "find (\<lambda>t. toLowerCase (name t) = toLowerCase nm) (topicValues db) = None"
    by (simp add: getTopicByName_def)
  have m: "map_of (topics db @ [(newId, ?new)]) newId = Some ?new"
    using assms(4) by (simp add: map_of_eq_None_iff [THEN iffD2] map_add_def)
  have eq: "switchToTopic newId now nm db
      = db\<lparr>topics := topics db @ [(newId, ?new)], currentTopicId := Some newId\<rparr>"
    using assms(2,4) f m
    by (simp add: switchToTopic_def createTopic_def Let_def update_fresh setCurrentTopic_def
        hasTopic_def)
  show "topics (switchToTopic newId now nm db) = topics db @ [(newId, ?new)]"
    by (simp add: eq)
  show "getCurrentTopic (switchToTopic newId now nm db) = Some ?new"
    using assms(3) m by (simp add: eq getCurrentTopic_def)
  show "wellKeyed (switchToTopic newId now nm db)"
    using assms(1,3,4) by (simp add: eq wellKeyed_def)
qed

section \<open>Turns keep the store well formed\<close>

lemma completeBackgroundGeneration_wellformed:
  assumes "wellKeyed db" and "getCurrentTopic db = Some t"
  shows "wellKeyed (completeBackgroundGeneration tgt materials db)"
    and "getCurrentTopic (completeBackgroundGeneration tgt materials db) \<noteq> None"
    and "map (\<lambda>t. (name t, isMainTopic t, messages t))
           (topicValues (completeBackgroundGeneration tgt materials db))
         = map (\<lambda>t. (name t, isMainTopic t, messages t)) (topicValues db)"
    and "currentTopicId (completeBackgroundGeneration tgt materials db) = currentTopicId db"
  using assms
  by (auto simp: completeBackgroundGeneration_def addQuizQuestionsToTopic_def
      addFlashcardsToTopic_def wellKeyed_modifyTopic getCurrentTopic_modifyTopic
      topicValues_modifyTopic split: option.splits)

text \<open>
  A turn on a well-keyed store with a current topic, drawing an identifier that is not
  empty and not in use, leaves a well-keyed store with a current topic: the conditions
  under which the turns are studied below hold from \<open>reset\<close> onwards.
\<close>

lemma handleSendMessage_wellformed:
  assumes "wellKeyed db" and "getCurrentTopic db = Some t0"
    and "shiftId env \<noteq> []" and "shiftId env \<notin> fst ` set (topics db)"
  shows "wellKeyed (fst (snd (handleSendMessage env ui db)))
       \<and> getCurrentTopic (fst (snd (handleSendMessage env ui db))) \<noteq> None"
proof (cases "orchestratorRef ui")
  case None
  with assms show ?thesis by (simp add: handleSendMessage_def)
next
  case (Some orch)
  show ?thesis
  proof (cases "trim (inputMessage ui) = []")
    case True
    with Some assms show ?thesis by (simp add: handleSendMessage_def)
  next
    case False
    let ?userMsg = "\<lparr>role = User, msgText = inputMessage ui, sources = None\<rparr>"
    let ?db1 = "addMessageToCurrentTopic ?userMsg db"
    note act = addMessageToCurrentTopic_active [OF assms(1,2)]
    have wk1: "wellKeyed ?db1" by (rule act(5))
    have cur1: "getCurrentTopic ?db1 = Some (t0\<lparr>messages := messages t0 @ [?userMsg]\<rparr>)"
      by (rule act(4))
    let ?pq = "processUserQuery env (inputMessage ui) (agentMode ui)
                 (sliceLast 5 (chatMessages ui)) (title (slides ui ! currentSlideIndex ui))
                 orch ?db1"
    let ?call = "if currentSlideIndex ui < length (slides ui) then ?pq
                 else (Inl SlideUndefined, orch, ?db1, None)"
    have d: "fst (snd (snd ?pq)) = ?db1"
      by (rule processUserQuery_active [OF cur1])
    obtain res o' d' tgt' where pq: "?pq = (res, o', d', tgt')"
      by (cases ?pq) auto
    with d have "?pq = (res, o', ?db1, tgt')" by simp
    then obtain res orch1 tgt where call: "?call = (res, orch1, ?db1, tgt)"
      by (cases "currentSlideIndex ui < length (slides ui)") simp_all
    show ?thesis
    proof (cases res)
      case (Inl e)
      with call Some False have "fst (snd (handleSendMessage env ui db)) = ?db1"
        by (simp add: handleSendMessage_def Let_def)
      with wk1 cur1 show ?thesis by simp
    next
      case (Inr r)
      let ?nm = "topicName (analysis r)"
      let ?db3 = "switchToTopic (shiftId env) (shiftNow env) ?nm ?db1"
      from assms(4) have fresh1: "shiftId env \<notin> fst ` set (topics ?db1)"
        using keys_addMessageToCurrentTopic [of ?userMsg db] by (metis set_map)
      have sw: "wellKeyed ?db3 \<and> (\<exists>t. getCurrentTopic ?db3 = Some t)"
      proof (cases "getTopicByName ?db1 ?nm")
        case None
        from switchToTopic_new(2,3) [OF wk1 None assms(3) fresh1] show ?thesis by blast
      next
        case (Some t')
        from switchToTopic_found(2,3) [OF wk1 Some] show ?thesis by blast
      qed
      have post: "wellKeyed (addMessageToCurrentTopic m d) \<and> getCurrentTopic (addMessageToCurrentTopic m d) \<noteq> None"
        if "wellKeyed d" and "\<exists>t. getCurrentTopic d = Some t" for m d
        using that addMessageToCurrentTopic_active(4,5) by fastforce
      from Inr call Some False have "fst (snd (handleSendMessage env ui db))
          = addMessageToCurrentTopic (response r)
              (if isNewTopic (analysis r) \<and> ?nm \<noteq> currentTopicName_ui ui then ?db3 else ?db1)"
        by (simp add: handleSendMessage_def Let_def)
      with post [of ?db3 "response r"] post [of ?db1 "response r"] sw wk1 cur1
      show ?thesis by simp
    qed
  qed
qed

section \<open>A turn whose synthesis fails\<close>



section \<open>A turn classified as new under the current name\<close>

lemma processUserQuery_orchestrator:
  "fst (snd (processUserQuery env userText mode hist slideContext orch db))
     = (if parentChat orch = None then orch
        else snd (snd (detectShift (analyzeTopicShift (parseJson env) (classifyResponse env)
                         (currentTopicName orch)) orch)))"
  by (simp add: processUserQuery_def Let_def
      split: option.splits prod.splits ApiResult.splits)

lemma processUserQuery_analysis:
  "fst (processUserQuery env userText mode hist slideContext orch db) = Inr res
   \<Longrightarrow> analysis res = analyzeTopicShift (parseJson env) (classifyResponse env)
                         (currentTopicName orch)"
  by (auto simp: processUserQuery_def Let_def
      split: option.splits prod.splits ApiResult.splits)

lemma childAgentRouting_sendMessage [simp]:
  "childAgentRouting (env\<lparr>sendMessage := f\<rparr>) mode userText db
     = childAgentRouting env mode userText db"
  by (cases mode) (simp_all add: childAgentRouting_def)

text \<open>
  The outcome of \<open>processUserQuery\<close> depends on the conversation engine only through its
  answer to one prompt: the final prompt built from the system injection of the shift
  logic, the slide context, the child agent's output and the user's text.
\<close>

lemma processUserQuery_prompt:
  "processUserQuery env userText mode hist slideContext orch db
     = processUserQuery
         (env\<lparr>sendMessage := (\<lambda>p.
             if p = finalPrompt
                      (fst (snd (detectShift (analyzeTopicShift (parseJson env)
                         (classifyResponse env) (currentTopicName orch)) orch)))
                      slideContext (fst (childAgentRouting env mode userText db)) userText
             then sendMessage env p else Rejected)\<rparr>)
         userText mode hist slideContext orch db"
proof (cases "parentChat orch")
  case None
  then show ?thesis by (simp add: processUserQuery_def)
next
  case (Some chat)
  obtain w inj o1 where ds: "detectShift (analyzeTopicShift (parseJson env)
      (classifyResponse env) (currentTopicName orch)) orch = (w, inj, o1)"
    by (cases "detectShift (analyzeTopicShift (parseJson env)
      (classifyResponse env) (currentTopicName orch)) orch") auto
  obtain c srcs where ch: "childAgentRouting env mode userText db = (c, srcs)"
    by (cases "childAgentRouting env mode userText db") auto
  from Some ds ch show ?thesis
    by (simp add: processUserQuery_def Let_def split: ApiResult.splits)
qed

text \<open>
  Claim C10, as amended. In a store with a current topic, a turn in which the classifier
  returns \<open>isNewTopic = true\<close> with a \<open>topicName\<close> equal to the orchestrator's current
  topic name performs no shift in the orchestrator: the shift logic returns the same
  orchestrator and an empty system injection, so the prompt that reaches the engine is the
  one built with no system note. When that name is also the topic name held by the session
  component, the turn leaves the orchestrator, the component's topic name and the store's
  current-topic pointer as they were.
\<close>

theorem no_shift_on_same_name:
  assumes "orchestratorRef ui = Some orch"
    and "trim (inputMessage ui) \<noteq> []"
    and "getCurrentTopic db = Some t0"
    and "analyzeTopicShift (parseJson env) (classifyResponse env) (currentTopicName orch) = a"
    and "isNewTopic a"
    and "topicName a = currentTopicName orch"
    and "currentTopicName_ui ui = currentTopicName orch"
  shows "detectShift a orch = (currentTopicName orch, [], orch)
     \<and> processUserQuery env userText mode hist slideContext orch db
         = processUserQuery
             (env\<lparr>sendMessage := (\<lambda>p.
                 if p = finalPrompt [] slideContext
                          (fst (childAgentRouting env mode userText db)) userText
                 then sendMessage env p else Rejected)\<rparr>)
             userText mode hist slideContext orch db
     \<and> (\<exists>ui' db' tgt. handleSendMessage env ui db = (ui', db', tgt)
           \<and> orchestratorRef ui' = Some orch
           \<and> currentTopicName_ui ui' = currentTopicName_ui ui
           \<and> currentTopicId db' = currentTopicId db)"
proof -
  let ?userMsg = "\<lparr>role = User, msgText = inputMessage ui, sources = None\<rparr>"
  let ?db1 = "addMessageToCurrentTopic ?userMsg db"
  have ds: "detectShift a orch = (currentTopicName orch, [], orch)"
    using assms(6) by (simp add: detectShift_def)
  have pr: "processUserQuery env userText mode hist slideContext orch db
         = processUserQuery
             (env\<lparr>sendMessage := (\<lambda>p.
                 if p = finalPrompt [] slideContext
                          (fst (childAgentRouting env mode userText db)) userText
                 then sendMessage env p else Rejected)\<rparr>)
             userText mode hist slideContext orch db"
    using processUserQuery_prompt [of env userText mode hist slideContext orch db]
    by (simp add: assms(4) ds)
  from assms(3) obtain t1 where cur1: "getCurrentTopic ?db1 = Some t1"
    using getCurrentTopic_addMessageToCurrentTopic_None [of ?userMsg db] by fastforce
  let ?pq = "processUserQuery env (inputMessage ui) (agentMode ui)
               (sliceLast 5 (chatMessages ui)) (title (slides ui ! currentSlideIndex ui))
               orch ?db1"
  let ?call = "if currentSlideIndex ui < length (slides ui) then ?pq
               else (Inl SlideUndefined, orch, ?db1, None)"
  have o: "fst (snd ?pq) = orch"
    by (simp add: processUserQuery_orchestrator assms(4) ds)
  have d: "fst (snd (snd ?pq)) = ?db1"
    by (rule processUserQuery_active [OF cur1])
  obtain res o' d' tgt' where pq: "?pq = (res, o', d', tgt')"
    by (cases ?pq) auto
  with o d have "?pq = (res, orch, ?db1, tgt')" by simp
  then obtain res tgt where call: "?call = (res, orch, ?db1, tgt)"
    by (cases "currentSlideIndex ui < length (slides ui)") simp_all
  show ?thesis
  proof (cases res)
    case (Inl e)
    with call assms(1,2) have "handleSendMessage env ui db =
      (ui\<lparr>inputMessage := [], isChatLoading := True,
           chatMessages := chatMessages ui @ [?userMsg],
           slideChatHistory := slideChatHistory ui @ [?userMsg],
           chatMessages := (chatMessages ui @ [?userMsg]) @ [errorMessage],
           isChatLoading := False, orchestratorRef := Some orch\<rparr>, ?db1, tgt)"
      by (simp add: handleSendMessage_def Let_def)
    with ds pr show ?thesis by simp
  next
    case (Inr r)
    with call have "currentSlideIndex ui < length (slides ui)" and "fst ?pq = Inr r"
      by (auto split: if_splits)
    from processUserQuery_analysis [OF this(2)] have an: "analysis r = a"
      by (simp add: assms(4))
    from Inr call assms(1,2) an assms(6,7) have "handleSendMessage env ui db =
      (ui\<lparr>inputMessage := [], isChatLoading := True,
           chatMessages := chatMessages ui @ [?userMsg],
           slideChatHistory := slideChatHistory ui @ [?userMsg],
           chatMessages := (chatMessages ui @ [?userMsg]) @ [response r],
           slideChatHistory := (slideChatHistory ui @ [?userMsg]) @ [response r],
           isChatLoading := False, currentTopicName_ui := currentTopicName_ui ui,
           orchestratorRef := Some orch\<rparr>,
       addMessageToCurrentTopic (response r) ?db1, tgt)"
      by (simp add: handleSendMessage_def Let_def)
    with ds pr show ?thesis by simp
  qed
qed

theorem no_shift_on_same_name_witness:
  "detectShift \<lparr>isNewTopic = True, topicName = ''History''\<rparr> (newAgentOrchestrator Chat ''History'')
     = (''History'', [], newAgentOrchestrator Chat ''History'')
   \<and> orchestratorRef (fst (handleSendMessage
         (scriptedEnv \<lparr>isNewTopic = True, topicName = ''History''\<rparr> (Resolved ''Yes.''))
         (sampleSession ''History'' ''Is that so?'') (sampleStore ''History'')))
       = Some (newAgentOrchestrator Chat ''History'')
   \<and> currentTopicId (fst (snd (handleSendMessage
         (scriptedEnv \<lparr>isNewTopic = True, topicName = ''History''\<rparr> (Resolved ''Yes.''))
         (sampleSession ''History'' ''Is that so?'') (sampleStore ''History''))))
       = Some ''id-1''"
proof -
  let ?a = "\<lparr>isNewTopic = True, topicName = ''History''\<rparr>"
  let ?env = "scriptedEnv ?a (Resolved ''Yes.'')"
  let ?ui = "sampleSession ''History'' ''Is that so?''"
  let ?db = "sampleStore ''History''"
  let ?orch = "newAgentOrchestrator Chat ''History''"
  let ?t0 = "\<lparr>topic_id = ''id-1'', name = ''History'', timestamp = 1000, messages = [],
       flashcards = [], quizzes = [], examQuestions = [], isMainTopic = True,
       notebookContent = [], knowledgeBase = []\<rparr>"
  have h1: "orchestratorRef ?ui = Some ?orch"
    by (simp add: sampleSession_def)
  have h2: "trim (inputMessage ?ui) \<noteq> []"
    by (simp add: sampleSession_def trim_def isWhiteSpace_def)
  have h3: "getCurrentTopic ?db = Some ?t0"
    by (simp add: sampleStore_def getCurrentTopic_reset)
  have h4: "analyzeTopicShift (parseJson ?env) (classifyResponse ?env) (currentTopicName ?orch) = ?a"
    by (simp add: scriptedEnv_def analyzeTopicShift_def Let_def)
  have h5: "isNewTopic ?a" by simp
  have h6: "topicName ?a = currentTopicName ?orch"
    by (simp add: newAgentOrchestrator_def)
  have h7: "currentTopicName_ui ?ui = currentTopicName ?orch"
    by (simp add: newAgentOrchestrator_def sampleSession_def)
  from no_shift_on_same_name [OF h1 h2 h3 h4 h5 h6 h7]
  obtain ui' db' tgt where "detectShift ?a ?orch = (currentTopicName ?orch, [], ?orch)"
    and "handleSendMessage ?env ?ui ?db = (ui', db', tgt)"
    and "orchestratorRef ui' = Some ?orch"
    and "currentTopicId db' = currentTopicId ?db"
    by blast
  moreover have "currentTopicId ?db = Some ''id-1''"
    by (simp add: sampleStore_def reset_def createTopic_def topicValues_def Let_def)
  moreover have "currentTopicName ?orch = ''History''"
    by (simp add: newAgentOrchestrator_def)
  ultimately show ?thesis by simp
qed

text \<open>
  Claim C10 as stated fails after a turn whose synthesis failed once the orchestrator had
  recorded a shift: the orchestrator's topic name is then "Biology" while the component's
  name and the store's current topic are still "History". In the next turn the classifier
  answers \<open>isNewTopic = true\<close> with "Biology", the orchestrator's own current name, and the
  component moves the store's current-topic pointer from the topic \<open>id-1\<close> to the new
  topic \<open>id-2\<close>.
\<close>

theorem no_shift_on_same_name_counterexample:
  "orchestratorRef (fst afterFailedShift)
     = Some \<lparr>parentChat = Some Chat, currentTopicName = ''Biology''\<rparr>
   \<and> analyzeTopicShift
         (parseJson (scriptedEnv \<lparr>isNewTopic = True, topicName = ''Biology''\<rparr>
            (Resolved ''Cells are small.'')))
         (classifyResponse (scriptedEnv \<lparr>isNewTopic = True, topicName = ''Biology''\<rparr>
            (Resolved ''Cells are small.''))) ''Biology''
       = \<lparr>isNewTopic = True, topicName = ''Biology''\<rparr>
   \<and> currentTopicId (snd afterFailedShift) = Some ''id-1''
   \<and> currentTopicId (fst (snd (handleSendMessage
         (scriptedEnv \<lparr>isNewTopic = True, topicName = ''Biology''\<rparr> (Resolved ''Cells are small.''))
         (fst afterFailedShift) (snd afterFailedShift)))) = Some ''id-2''"
  by code_simp

section \<open>What a turn sends to the engine and gets back\<close>

lemma childAgentRouting_addMessageToCurrentTopic:
  "childAgentRouting env mode userText (addMessageToCurrentTopic m db)
     = childAgentRouting env mode userText db"
proof -
  have "(case getCurrentTopic (addMessageToCurrentTopic m db) of
           None \<Rightarrow> [] | Some t \<Rightarrow> notebookContent t)
      = (case getCurrentTopic db of None \<Rightarrow> [] | Some t \<Rightarrow> notebookContent t)"
    by (simp add: addMessageToCurrentTopic_def addMessageToTopic_def
        getCurrentTopic_modifyTopic split: option.splits)
  then show ?thesis by (cases mode) (simp_all add: childAgentRouting_def)
qed

text \<open>
  With a chat attached, an engine that resolves and a current topic in the store,
  \<open>processUserQuery\<close> returns the engine's answer to the final prompt as the response,
  with the child agent's sources when there are any, the classifier's analysis, the
  orchestrator as the shift logic leaves it, and the store untouched.
\<close>

lemma processUserQuery_resolved_exact:
  assumes "parentChat orch = Some chat"
    and "\<And>p. sendMessage env p = Resolved (reply p)"
    and "getCurrentTopic db = Some t"
    and "analyzeTopicShift (parseJson env) (classifyResponse env) (currentTopicName orch) = a"
  shows "processUserQuery env userText mode hist slideContext orch db
      = (Inr \<lparr>response =
               \<lparr>role = Model,
                msgText = reply (finalPrompt (fst (snd (detectShift a orch))) slideContext
                            (fst (childAgentRouting env mode userText db)) userText),
                sources = (if snd (childAgentRouting env mode userText db) \<noteq> []
                           then Some (snd (childAgentRouting env mode userText db)) else None)\<rparr>,
              analysis = a,
              resultSources = snd (childAgentRouting env mode userText db)\<rparr>,
         snd (snd (detectShift a orch)), db,
         if topic_id t = [] then None else Some (topic_id t))"
proof -
  obtain w inj o1 where ds: "detectShift a orch = (w, inj, o1)"
    by (cases "detectShift a orch") auto
  obtain c srcs where ch: "childAgentRouting env mode userText db = (c, srcs)"
    by (cases "childAgentRouting env mode userText db") auto
  from assms ds ch show ?thesis
    by (simp add: processUserQuery_def triggerBackgroundGeneration_active Let_def)
qed

text \<open>
  A turn whose analysis is a shift neither for the orchestrator nor for the component
  leaves the orchestrator, the component's topic name, the store's current-topic pointer
  and the keys of the store as they were, whether the engine answers or not.
\<close>

lemma handleSendMessage_no_shift:
  assumes "orchestratorRef ui = Some orch"
    and "trim (inputMessage ui) \<noteq> []"
    and "getCurrentTopic db = Some t0"
    and "analyzeTopicShift (parseJson env) (classifyResponse env) (currentTopicName orch) = a"
    and "\<not> (isNewTopic a \<and> topicName a \<noteq> currentTopicName orch)"
    and "\<not> (isNewTopic a \<and> topicName a \<noteq> currentTopicName_ui ui)"
  shows "\<exists>ui' db' tgt. handleSendMessage env ui db = (ui', db', tgt)
           \<and> orchestratorRef ui' = Some orch
           \<and> currentTopicName_ui ui' = currentTopicName_ui ui
           \<and> currentTopicId db' = currentTopicId db
           \<and> map fst (topics db') = map fst (topics db)"
proof -
  let ?userMsg = "\<lparr>role = User, msgText = inputMessage ui, sources = None\<rparr>"
  let ?db1 = "addMessageToCurrentTopic ?userMsg db"
  have ds: "detectShift a orch = (currentTopicName orch, [], orch)"
    using assms(5) by (auto simp: detectShift_def)
  from assms(3) obtain t1 where cur1: "getCurrentTopic ?db1 = Some t1"
    using getCurrentTopic_addMessageToCurrentTopic_None [of ?userMsg db] by fastforce
  have keys1: "map fst (topics ?db1) = map fst (topics db)"
    by (rule keys_addMessageToCurrentTopic)
  let ?pq = "processUserQuery env (inputMessage ui) (agentMode ui)
               (sliceLast 5 (chatMessages ui)) (title (slides ui ! currentSlideIndex ui))
               orch ?db1"
  let ?call = "if currentSlideIndex ui < length (slides ui) then ?pq
               else (Inl SlideUndefined, orch, ?db1, None)"
  have o: "fst (snd ?pq) = orch"
    by (simp add: processUserQuery_orchestrator assms(4) ds)
  have d: "fst (snd (snd ?pq)) = ?db1"
    by (rule processUserQuery_active [OF cur1])
  obtain res o' d' tgt' where pq: "?pq = (res, o', d', tgt')"
    by (cases ?pq) auto
  with o d have "?pq = (res, orch, ?db1, tgt')" by simp
  then obtain res tgt where call: "?call = (res, orch, ?db1, tgt)"
    by (cases "currentSlideIndex ui < length (slides ui)") simp_all
  show ?thesis
  proof (cases res)
    case (Inl e)
    with call assms(1,2) have "handleSendMessage env ui db =
      (ui\<lparr>inputMessage := [], isChatLoading := True,
           chatMessages := chatMessages ui @ [?userMsg],
           slideChatHistory := slideChatHistory ui @ [?userMsg],
           chatMessages := (chatMessages ui @ [?userMsg]) @ [errorMessage],
           isChatLoading := False, orchestratorRef := Some orch\<rparr>, ?db1, tgt)"
      by (simp add: handleSendMessage_def Let_def)
    with keys1 show ?thesis by simp
  next
    case (Inr r)
    with call have "currentSlideIndex ui < length (slides ui)" and "fst ?pq = Inr r"
      by (auto split: if_splits)
    from processUserQuery_analysis [OF this(2)] have an: "analysis r = a"
      by (simp add: assms(4))
    have "handleSendMessage env ui db =
      (ui\<lparr>inputMessage := [], isChatLoading := True,
           chatMessages := chatMessages ui @ [?userMsg],
           slideChatHistory := slideChatHistory ui @ [?userMsg],
           chatMessages := (chatMessages ui @ [?userMsg]) @ [response r],
           slideChatHistory := (slideChatHistory ui @ [?userMsg]) @ [response r],
           isChatLoading := False, currentTopicName_ui := currentTopicName_ui ui,
           orchestratorRef := Some orch\<rparr>,
       addMessageToCurrentTopic (response r) ?db1, tgt)"
    proof (cases "isNewTopic a")
      case True
      with assms(6) have "topicName a = currentTopicName_ui ui" by simp
      with Inr call assms(1,2) an show ?thesis
        by (simp add: handleSendMessage_def Let_def)
    next
      case False
      with Inr call assms(1,2) an show ?thesis
        by (simp add: handleSendMessage_def Let_def)
    qed
    with keys1 show ?thesis by (simp add: keys_addMessageToCurrentTopic)
  qed
qed

section \<open>The classifier's fallback\<close>

lemma analyzeTopicShift_parse_failure:
  "parse (case txt of None \<Rightarrow> defaultAnalysisJson
                | Some s \<Rightarrow> if s = [] then defaultAnalysisJson else s) = None
   \<Longrightarrow> analyzeTopicShift parse (Resolved txt) currentTopic
       = \<lparr>isNewTopic = False, topicName = currentTopic\<rparr>"
  by (simp add: analyzeTopicShift_def)

text \<open>
  Claim C7. For every current topic name, when the classification call rejects,
  \<open>analyzeTopicShift\<close> returns exactly \<open>isNewTopic = false\<close> with the current topic as
  \<open>topicName\<close>. A turn with a rejected classification, in a store with a current topic,
  never switches topics: whatever the engine does, it leaves the orchestrator, the
  component's topic name, the store's current-topic pointer and the keys of the store (so
  no topic is created) as they were.
  And the turn proceeds: the prompt that reaches the engine has no system note, and when
  the engine answers, \<open>processUserQuery\<close> returns that answer with the fallback analysis,
  and \<open>handleSendMessage\<close> shows the learner's message and the answer in the chat and
  stores both under the current topic.
\<close>

theorem classifier_failure_fallback:
  "analyzeTopicShift parse Rejected currentTopic
     = \<lparr>isNewTopic = False, topicName = currentTopic\<rparr>
   \<and> (classifyResponse env = Rejected \<and> orchestratorRef ui = Some orch
        \<and> trim (inputMessage ui) \<noteq> [] \<and> getCurrentTopic db = Some t0
      \<longrightarrow> (\<exists>ui' db' tgt. handleSendMessage env ui db = (ui', db', tgt)
             \<and> orchestratorRef ui' = Some orch
             \<and> currentTopicName_ui ui' = currentTopicName_ui ui
             \<and> currentTopicId db' = currentTopicId db
             \<and> map fst (topics db') = map fst (topics db)))
   \<and> (classifyResponse env = Rejected \<and> parentChat orch = Some chat
        \<and> (\<forall>p. sendMessage env p = Resolved (reply p)) \<and> getCurrentTopic db = Some t0
      \<longrightarrow> processUserQuery env userText mode hist slideContext orch db
            = (Inr \<lparr>response =
                     \<lparr>role = Model,
                      msgText = reply (finalPrompt [] slideContext
                                  (fst (childAgentRouting env mode userText db)) userText),
                      sources = (if snd (childAgentRouting env mode userText db) \<noteq> []
                                 then Some (snd (childAgentRouting env mode userText db))
                                 else None)\<rparr>,
                    analysis = \<lparr>isNewTopic = False, topicName = currentTopicName orch\<rparr>,
                    resultSources = snd (childAgentRouting env mode userText db)\<rparr>,
               orch, db, if topic_id t0 = [] then None else Some (topic_id t0)))
   \<and> (classifyResponse env = Rejected \<and> orchestratorRef ui = Some orch
        \<and> parentChat orch = Some chat \<and> trim (inputMessage ui) \<noteq> []
        \<and> currentSlideIndex ui < length (slides ui)
        \<and> (\<forall>p. sendMessage env p = Resolved (reply p)) \<and> getCurrentTopic db = Some t0
      \<longrightarrow> chatMessages (fst (handleSendMessage env ui db))
            = chatMessages ui
              @ [\<lparr>role = User, msgText = inputMessage ui, sources = None\<rparr>,
                 \<lparr>role = Model,
                  msgText = reply (finalPrompt [] (title (slides ui ! currentSlideIndex ui))
                              (fst (childAgentRouting env (agentMode ui) (inputMessage ui) db))
                              (inputMessage ui)),
                  sources = (if snd (childAgentRouting env (agentMode ui) (inputMessage ui) db) \<noteq> []
                             then Some (snd (childAgentRouting env (agentMode ui)
                                                (inputMessage ui) db))
                             else None)\<rparr>]
          \<and> fst (snd (handleSendMessage env ui db))
            = addMessageToCurrentTopic
                \<lparr>role = Model,
                  msgText = reply (finalPrompt [] (title (slides ui ! currentSlideIndex ui))
                              (fst (childAgentRouting env (agentMode ui) (inputMessage ui) db))
                              (inputMessage ui)),
                  sources = (if snd (childAgentRouting env (agentMode ui) (inputMessage ui) db) \<noteq> []
                             then Some (snd (childAgentRouting env (agentMode ui)
                                                (inputMessage ui) db))
                             else None)\<rparr>
                (addMessageToCurrentTopic
                   \<lparr>role = User, msgText = inputMessage ui, sources = None\<rparr> db))"
proof -
  have fb: "analyzeTopicShift p Rejected c = \<lparr>isNewTopic = False, topicName = c\<rparr>" for p c
    by (simp add: analyzeTopicShift_def)
  have ds: "detectShift \<lparr>isNewTopic = False, topicName = c\<rparr> o1 = (currentTopicName o1, [], o1)"
    for c o1
    by (simp add: detectShift_def)
  have c2: "\<exists>ui' db' tgt. handleSendMessage env ui db = (ui', db', tgt)
             \<and> orchestratorRef ui' = Some orch
             \<and> currentTopicName_ui ui' = currentTopicName_ui ui
             \<and> currentTopicId db' = currentTopicId db
             \<and> map fst (topics db') = map fst (topics db)"
    if "classifyResponse env = Rejected" and "orchestratorRef ui = Some orch"
      and "trim (inputMessage ui) \<noteq> []" and "getCurrentTopic db = Some t0"
  proof (rule handleSendMessage_no_shift [OF that(2,3,4)])
    show "analyzeTopicShift (parseJson env) (classifyResponse env) (currentTopicName orch)
        = \<lparr>isNewTopic = False, topicName = currentTopicName orch\<rparr>"
      by (simp add: that(1) fb)
  qed simp_all
  have c3: "processUserQuery env userText mode hist slideContext orch d
            = (Inr \<lparr>response =
                     \<lparr>role = Model,
                      msgText = reply (finalPrompt [] slideContext
                                  (fst (childAgentRouting env mode userText d)) userText),
                      sources = (if snd (childAgentRouting env mode userText d) \<noteq> []
                                 then Some (snd (childAgentRouting env mode userText d))
                                 else None)\<rparr>,
                    analysis = \<lparr>isNewTopic = False, topicName = currentTopicName orch\<rparr>,
                    resultSources = snd (childAgentRouting env mode userText d)\<rparr>,
               orch, d, if topic_id t = [] then None else Some (topic_id t))"
    if "classifyResponse env = Rejected" and "parentChat orch = Some chat"
      and "\<forall>p. sendMessage env p = Resolved (reply p)" and "getCurrentTopic d = Some t"
    for userText mode hist slideContext d t
  proof -
    have a: "analyzeTopicShift (parseJson env) (classifyResponse env) (currentTopicName orch)
        = \<lparr>isNewTopic = False, topicName = currentTopicName orch\<rparr>"
      by (simp add: that(1) fb)
    from that(3) have s: "\<And>p. sendMessage env p = Resolved (reply p)" by simp
    from processUserQuery_resolved_exact [OF that(2) s that(4) a] show ?thesis
      by (simp add: ds)
  qed
  have c4: "chatMessages (fst (handleSendMessage env ui db))
            = chatMessages ui
              @ [\<lparr>role = User, msgText = inputMessage ui, sources = None\<rparr>,
                 \<lparr>role = Model,
                  msgText = reply (finalPrompt [] (title (slides ui ! currentSlideIndex ui))
                              (fst (childAgentRouting env (agentMode ui) (inputMessage ui) db))
                              (inputMessage ui)),
                  sources = (if snd (childAgentRouting env (agentMode ui) (inputMessage ui) db) \<noteq> []
                             then Some (snd (childAgentRouting env (agentMode ui)
                                                (inputMessage ui) db))
                             else None)\<rparr>]
          \<and> fst (snd (handleSendMessage env ui db))
            = addMessageToCurrentTopic
                \<lparr>role = Model,
                  msgText = reply (finalPrompt [] (title (slides ui ! currentSlideIndex ui))
                              (fst (childAgentRouting env (agentMode ui) (inputMessage ui) db))
                              (inputMessage ui)),
                  sources = (if snd (childAgentRouting env (agentMode ui) (inputMessage ui) db) \<noteq> []
                             then Some (snd (childAgentRouting env (agentMode ui)
                                                (inputMessage ui) db))
                             else None)\<rparr>
                (addMessageToCurrentTopic
                   \<lparr>role = User, msgText = inputMessage ui, sources = None\<rparr> db)"
    if h: "classifyResponse env = Rejected" "orchestratorRef ui = Some orch"
      "parentChat orch = Some chat" "trim (inputMessage ui) \<noteq> []"
      "currentSlideIndex ui < length (slides ui)"
      "\<forall>p. sendMessage env p = Resolved (reply p)" "getCurrentTopic db = Some t0"
  proof -
    let ?userMsg = "\<lparr>role = User, msgText = inputMessage ui, sources = None\<rparr>"
    let ?db1 = "addMessageToCurrentTopic ?userMsg db"
    from h(7) obtain t1 where cur1: "getCurrentTopic ?db1 = Some t1"
      using getCurrentTopic_addMessageToCurrentTopic_None [of ?userMsg db] by fastforce
    note pq = c3 [OF h(1,3,6) cur1, of "inputMessage ui" "agentMode ui"
        "sliceLast 5 (chatMessages ui)" "title (slides ui ! currentSlideIndex ui)"]
    show ?thesis
      using h(2,4,5) pq
      by (simp add: handleSendMessage_def Let_def childAgentRouting_addMessageToCurrentTopic)
  qed
  from fb c2 c3 c4 show ?thesis by blast
qed

theorem classifier_failure_fallback_witness:
  "analyzeTopicShift (\<lambda>s. None) Rejected ''Thermodynamics''
     = \<lparr>isNewTopic = False, topicName = ''Thermodynamics''\<rparr>
   \<and> currentTopicId (fst (snd (handleSendMessage
         ((scriptedEnv \<lparr>isNewTopic = True, topicName = ''Biology''\<rparr>
             (Resolved ''Because of entropy.''))\<lparr>classifyResponse := Rejected\<rparr>)
         (sampleSession ''Thermodynamics'' ''why is that?'') (sampleStore ''Thermodynamics''))))
       = Some ''id-1''
   \<and> currentTopicName_ui (fst (handleSendMessage
         ((scriptedEnv \<lparr>isNewTopic = True, topicName = ''Biology''\<rparr>
             (Resolved ''Because of entropy.''))\<lparr>classifyResponse := Rejected\<rparr>)
         (sampleSession ''Thermodynamics'' ''why is that?'') (sampleStore ''Thermodynamics'')))
       = ''Thermodynamics''
   \<and> chatMessages (fst (handleSendMessage
         ((scriptedEnv \<lparr>isNewTopic = True, topicName = ''Biology''\<rparr>
             (Resolved ''Because of entropy.''))\<lparr>classifyResponse := Rejected\<rparr>)
         (sampleSession ''Thermodynamics'' ''why is that?'') (sampleStore ''Thermodynamics'')))
       = [\<lparr>role = User, msgText = ''why is that?'', sources = None\<rparr>,
          \<lparr>role = Model, msgText = ''Because of entropy.'', sources = None\<rparr>]
   \<and> map (\<lambda>t. (name t, messages t)) (topicValues (fst (snd (handleSendMessage
         ((scriptedEnv \<lparr>isNewTopic = True, topicName = ''Biology''\<rparr>
             (Resolved ''Because of entropy.''))\<lparr>classifyResponse := Rejected\<rparr>)
         (sampleSession ''Thermodynamics'' ''why is that?'') (sampleStore ''Thermodynamics'')))))
       = [(''Thermodynamics'',
           [\<lparr>role = User, msgText = ''why is that?'', sources = None\<rparr>,
            \<lparr>role = Model, msgText = ''Because of entropy.'', sources = None\<rparr>])]"
proof -
  let ?env = "(scriptedEnv \<lparr>isNewTopic = True, topicName = ''Biology''\<rparr>
             (Resolved ''Because of entropy.''))\<lparr>classifyResponse := Rejected\<rparr>"
  let ?ui = "sampleSession ''Thermodynamics'' ''why is that?''"
  let ?db = "sampleStore ''Thermodynamics''"
  let ?orch = "newAgentOrchestrator Chat ''Thermodynamics''"
  let ?t0 = "\<lparr>topic_id = ''id-1'', name = ''Thermodynamics'', timestamp = 1000, messages = [],
       flashcards = [], quizzes = [], examQuestions = [], isMainTopic = True,
       notebookContent = [], knowledgeBase = []\<rparr>"
  let ?userMsg = "\<lparr>role = User, msgText = ''why is that?'', sources = None\<rparr>"
  let ?resp = "\<lparr>role = Model, msgText = ''Because of entropy.'', sources = None\<rparr>"
  have h1: "classifyResponse ?env = Rejected" by simp
  have h2: "orchestratorRef ?ui = Some ?orch"
    by (simp add: sampleSession_def)
  have h3: "parentChat ?orch = Some Chat"
    by (simp add: newAgentOrchestrator_def)
  have h4: "trim (inputMessage ?ui) \<noteq> []"
    by (simp add: sampleSession_def trim_def isWhiteSpace_def)
  have h5: "currentSlideIndex ?ui < length (slides ?ui)"
    by (simp add: sampleSession_def)
  have h6: "\<forall>p. sendMessage ?env p = Resolved ((\<lambda>p. ''Because of entropy.'') p)"
    by (simp add: scriptedEnv_def)
  have h7: "getCurrentTopic ?db = Some ?t0"
    by (simp add: sampleStore_def getCurrentTopic_reset)
  note inst = classifier_failure_fallback [where parse = "\<lambda>s. None"
      and currentTopic = "''Thermodynamics''" and env = ?env and ui = ?ui and orch = ?orch
      and db = ?db and ?t0.0 = ?t0 and chat = Chat and reply = "\<lambda>p. ''Because of entropy.''"]
  from inst have a: "analyzeTopicShift (\<lambda>s. None) Rejected ''Thermodynamics''
     = \<lparr>isNewTopic = False, topicName = ''Thermodynamics''\<rparr>"
    by blast
  from inst h1 h2 h4 h7 obtain ui' db' tgt
    where out: "handleSendMessage ?env ?ui ?db = (ui', db', tgt)"
      and nm: "currentTopicName_ui ui' = currentTopicName_ui ?ui"
      and ptr: "currentTopicId db' = currentTopicId ?db"
    by blast
  from inst h1 h2 h3 h4 h5 h6 h7
  have ch: "chatMessages (fst (handleSendMessage ?env ?ui ?db))
            = chatMessages ?ui
              @ [\<lparr>role = User, msgText = inputMessage ?ui, sources = None\<rparr>,
                 \<lparr>role = Model,
                  msgText = (\<lambda>p. ''Because of entropy.'')
                     (finalPrompt [] (title (slides ?ui ! currentSlideIndex ?ui))
                              (fst (childAgentRouting ?env (agentMode ?ui) (inputMessage ?ui) ?db))
                              (inputMessage ?ui)),
                  sources = (if snd (childAgentRouting ?env (agentMode ?ui) (inputMessage ?ui) ?db) \<noteq> []
                             then Some (snd (childAgentRouting ?env (agentMode ?ui)
                                                (inputMessage ?ui) ?db))
                             else None)\<rparr>]"
    and st: "fst (snd (handleSendMessage ?env ?ui ?db))
            = addMessageToCurrentTopic
                \<lparr>role = Model,
                  msgText = (\<lambda>p. ''Because of entropy.'')
                     (finalPrompt [] (title (slides ?ui ! currentSlideIndex ?ui))
                              (fst (childAgentRouting ?env (agentMode ?ui) (inputMessage ?ui) ?db))
                              (inputMessage ?ui)),
                  sources = (if snd (childAgentRouting ?env (agentMode ?ui) (inputMessage ?ui) ?db) \<noteq> []
                             then Some (snd (childAgentRouting ?env (agentMode ?ui)
                                                (inputMessage ?ui) ?db))
                             else None)\<rparr>
                (addMessageToCurrentTopic
                   \<lparr>role = User, msgText = inputMessage ?ui, sources = None\<rparr> ?db)"
    by blast+
  have src: "childAgentRouting e (agentMode ?ui) s d = ([], [])" for e s d
    by (simp add: sampleSession_def childAgentRouting_def)
  have inp: "inputMessage ?ui = ''why is that?''" "chatMessages ?ui = []"
    by (simp_all add: sampleSession_def)
  from ch have c1: "chatMessages (fst (handleSendMessage ?env ?ui ?db)) = [?userMsg, ?resp]"
    by (simp add: src inp)
  have "addMessageToCurrentTopic ?resp (addMessageToCurrentTopic ?userMsg ?db)
      = ?db\<lparr>topics := [(''id-1'', ?t0\<lparr>messages := [?userMsg, ?resp]\<rparr>)]\<rparr>"
    by (simp add: sampleStore_def reset_def createTopic_def emptyDatabase_def topicValues_def
        Let_def addMessageToCurrentTopic_def getCurrentTopic_def addMessageToTopic_def
        modifyTopic_def)
  with st have "fst (snd (handleSendMessage ?env ?ui ?db))
      = ?db\<lparr>topics := [(''id-1'', ?t0\<lparr>messages := [?userMsg, ?resp]\<rparr>)]\<rparr>"
    by (simp add: src inp)
  then have c2: "map (\<lambda>t. (name t, messages t))
        (topicValues (fst (snd (handleSendMessage ?env ?ui ?db))))
      = [(''Thermodynamics'', [?userMsg, ?resp])]"
    by (simp add: topicValues_def)
  have p0: "currentTopicId ?db = Some ''id-1''"
    by (simp add: sampleStore_def reset_def createTopic_def topicValues_def Let_def)
  have n0: "currentTopicName_ui ?ui = ''Thermodynamics''"
    by (simp add: sampleSession_def)
  from out ptr p0 have c3: "currentTopicId (fst (snd (handleSendMessage ?env ?ui ?db)))
      = Some ''id-1''" by simp
  from out nm n0 have c4: "currentTopicName_ui (fst (handleSendMessage ?env ?ui ?db))
      = ''Thermodynamics''" by simp
  from a c1 c2 c3 c4 show ?thesis by blast
qed

section \<open>A turn that shifts to another subject\<close>

text \<open>
  Claim C1, as amended. Take a turn in a session whose store is well keyed and has a
  current topic \<open>t0\<close>, in which the classifier's analysis is a shift (\<open>isNewTopic\<close>, with
  a \<open>topicName\<close> other than the component's current topic name), the conversation engine
  answers, and the identifier drawn for a new topic is not empty and not in use. The
  tutor's response \<open>resp\<close> is the engine's answer to the final prompt of the turn, with
  the child agent's sources when there are any. Then:
  \<^item> the chat shows the learner's message and then \<open>resp\<close>;
  \<^item> the learner's message is appended to the messages of \<open>t0\<close>, the topic that was current
    before classification (followed there only by \<open>resp\<close>, and only when the shift leads
    back to \<open>t0\<close> itself);
  \<^item> after the turn the store has a current topic \<open>t1\<close> whose name equals \<open>topicName\<close> up to
    letter case and whose last message is \<open>resp\<close>;
  \<^item> when no topic of that name was in the store, \<open>t1\<close> is a new topic, not main, named
    \<open>topicName\<close>, holding \<open>resp\<close> only, and \<open>t0\<close> holds the learner's message last; when
    there was one, \<open>t1\<close> is that topic;
  \<^item> the component's and the orchestrator's topic name are \<open>topicName\<close>.
\<close>

theorem shift_persistence:
  assumes "orchestratorRef ui = Some orch"
    and "parentChat orch = Some chat"
    and "trim (inputMessage ui) \<noteq> []"
    and "currentSlideIndex ui < length (slides ui)"
    and "\<And>p. sendMessage env p = Resolved (reply p)"
    and "wellKeyed db"
    and "getCurrentTopic db = Some t0"
    and "shiftId env \<noteq> []"
    and "shiftId env \<notin> fst ` set (topics db)"
    and "analyzeTopicShift (parseJson env) (classifyResponse env) (currentTopicName orch) = a"
    and "isNewTopic a"
    and "topicName a \<noteq> currentTopicName_ui ui"
    and "resp =
           \<lparr>role = Model,
            msgText = reply (finalPrompt (fst (snd (detectShift a orch)))
                        (title (slides ui ! currentSlideIndex ui))
                        (fst (childAgentRouting env (agentMode ui) (inputMessage ui) db))
                        (inputMessage ui)),
            sources = (if snd (childAgentRouting env (agentMode ui) (inputMessage ui) db) \<noteq> []
                       then Some (snd (childAgentRouting env (agentMode ui) (inputMessage ui) db))
                       else None)\<rparr>"
  shows "\<exists>ui' db' tgt t0' t1.
       handleSendMessage env ui db = (ui', db', tgt)
     \<and> role resp = Model
     \<and> chatMessages ui' = chatMessages ui
          @ [\<lparr>role = User, msgText = inputMessage ui, sources = None\<rparr>, resp]
     \<and> map_of (topics db') (topic_id t0) = Some t0'
     \<and> (messages t0' = messages t0 @ [\<lparr>role = User, msgText = inputMessage ui, sources = None\<rparr>]
          \<or> messages t0' = messages t0
                @ [\<lparr>role = User, msgText = inputMessage ui, sources = None\<rparr>, resp]
              \<and> t1 = t0')
     \<and> getCurrentTopic db' = Some t1
     \<and> toLowerCase (name t1) = toLowerCase (topicName a)
     \<and> messages t1 \<noteq> [] \<and> last (messages t1) = resp
     \<and> (case getTopicByName db (topicName a) of
           None \<Rightarrow>
             t1 = \<lparr>topic_id = shiftId env, name = topicName a, timestamp = shiftNow env,
                    messages = [resp], flashcards = [], quizzes = [], examQuestions = [],
                    isMainTopic = False, notebookContent = [], knowledgeBase = []\<rparr>
             \<and> messages t0' = messages t0
                   @ [\<lparr>role = User, msgText = inputMessage ui, sources = None\<rparr>]
         | Some t \<Rightarrow> topic_id t1 = topic_id t \<and> name t1 = name t
                     \<and> map fst (topics db') = map fst (topics db))
     \<and> currentTopicName_ui ui' = topicName a
     \<and> map_option currentTopicName (orchestratorRef ui') = Some (topicName a)"
proof -
  let ?userMsg = "\<lparr>role = User, msgText = inputMessage ui, sources = None\<rparr>"
  let ?db1 = "addMessageToCurrentTopic ?userMsg db"
  let ?t0u = "t0\<lparr>messages := messages t0 @ [?userMsg]\<rparr>"
  let ?nm = "topicName a"
  note act = addMessageToCurrentTopic_active [OF assms(6,7)]
  have wk1: "wellKeyed ?db1" by (rule act(5))
  have cur1: "getCurrentTopic ?db1 = Some ?t0u" by (rule act(4))
  have look1: "map_of (topics ?db1) (topic_id t0) = Some ?t0u" by (simp add: act(3))
  have keys1: "map fst (topics ?db1) = map fst (topics db)"
    by (rule keys_addMessageToCurrentTopic)
  define tgt where "tgt = (if topic_id ?t0u = [] then None else Some (topic_id ?t0u))"
  have pq:
    "processUserQuery env (inputMessage ui) (agentMode ui) (sliceLast 5 (chatMessages ui))
        (title (slides ui ! currentSlideIndex ui)) orch ?db1
      = (Inr \<lparr>response = resp, analysis = a,
              resultSources = snd (childAgentRouting env (agentMode ui) (inputMessage ui) db)\<rparr>,
         snd (snd (detectShift a orch)), ?db1, tgt)"
    using processUserQuery_resolved_exact [OF assms(2,5) cur1 assms(10)]
    by (simp add: childAgentRouting_addMessageToCurrentTopic assms(13) tgt_def)
  let ?resp = resp
  let ?db3 = "switchToTopic (shiftId env) (shiftNow env) ?nm ?db1"
  let ?db4 = "addMessageToCurrentTopic ?resp ?db3"
  let ?ui' = "ui\<lparr>inputMessage := [], isChatLoading := True,
           chatMessages := chatMessages ui @ [?userMsg],
           slideChatHistory := slideChatHistory ui @ [?userMsg],
           chatMessages := (chatMessages ui @ [?userMsg]) @ [?resp],
           slideChatHistory := (slideChatHistory ui @ [?userMsg]) @ [?resp],
           isChatLoading := False, currentTopicName_ui := ?nm,
           orchestratorRef := Some (updateTopic ?nm (snd (snd (detectShift a orch))))\<rparr>"
  have out: "handleSendMessage env ui db = (?ui', ?db4, tgt)"
    using assms(1,3,4,11,12) pq by (simp add: handleSendMessage_def Let_def)
  have uiFacts: "chatMessages ?ui' = chatMessages ui @ [?userMsg, ?resp]"
    "currentTopicName_ui ?ui' = ?nm"
    "map_option currentTopicName (orchestratorRef ?ui') = Some ?nm"
    by (simp_all add: updateTopic_def)
  have ids: "map_option topic_id (getTopicByName ?db1 ?nm)
      = map_option topic_id (getTopicByName db ?nm)"
    by (rule getTopicByName_addMessageToCurrentTopic)
  have concl: ?thesis
    if "handleSendMessage env ui db = (u, d, tgt)" and "role resp = Model"
      and "chatMessages u = chatMessages ui @ [?userMsg, resp]"
      and "map_of (topics d) (topic_id t0) = Some x0"
      and "messages x0 = messages t0 @ [?userMsg]
           \<or> messages x0 = messages t0 @ [?userMsg, resp] \<and> x1 = x0"
      and "getCurrentTopic d = Some x1"
      and "toLowerCase (name x1) = toLowerCase ?nm"
      and "messages x1 \<noteq> []" and "last (messages x1) = resp"
      and "case getTopicByName db ?nm of
             None \<Rightarrow>
               x1 = \<lparr>topic_id = shiftId env, name = ?nm, timestamp = shiftNow env,
                      messages = [resp], flashcards = [], quizzes = [], examQuestions = [],
                      isMainTopic = False, notebookContent = [], knowledgeBase = []\<rparr>
               \<and> messages x0 = messages t0 @ [?userMsg]
           | Some t \<Rightarrow> topic_id x1 = topic_id t \<and> name x1 = name t
                       \<and> map fst (topics d) = map fst (topics db)"
      and "currentTopicName_ui u = ?nm"
      and "map_option currentTopicName (orchestratorRef u) = Some ?nm"
    for u d x0 x1
    using that by blast
  have respRole: "role ?resp = Model" by (simp add: assms(13))
  show ?thesis
  proof (cases "getTopicByName ?db1 ?nm")
    case None
    with ids have none0: "getTopicByName db ?nm = None" by simp
    let ?new = "\<lparr>topic_id = shiftId env, name = ?nm, timestamp = shiftNow env, messages = [],
        flashcards = [], quizzes = [], examQuestions = [], isMainTopic = False,
        notebookContent = [], knowledgeBase = []\<rparr>"
    from assms(9) keys1 have fresh1: "shiftId env \<notin> fst ` set (topics ?db1)"
      by (metis set_map)
    note sw = switchToTopic_new [OF wk1 None assms(8) fresh1, of "shiftNow env"]
    note act3 = addMessageToCurrentTopic_active [OF sw(3) sw(2)]
    have cur4: "getCurrentTopic ?db4 = Some (?new\<lparr>messages := [?resp]\<rparr>)"
      using act3(4) by simp
    from look1 have mem: "topic_id t0 \<in> fst ` set (topics ?db1)"
      by (metis map_of_eq_None_iff option.distinct(1))
    have ne: "topic_id t0 \<noteq> shiftId env"
    proof
      assume "topic_id t0 = shiftId env"
      with mem fresh1 show False by simp
    qed
    have "map_of (topics ?db3) (topic_id t0) = Some ?t0u"
      using look1 by (simp add: sw(1) map_add_def)
    with ne have look4: "map_of (topics ?db4) (topic_id t0) = Some ?t0u"
      by (simp add: act3(3))
    let ?t1 = "?new\<lparr>messages := [?resp]\<rparr>"
    have c5: "messages ?t0u = messages t0 @ [?userMsg]
           \<or> messages ?t0u = messages t0 @ [?userMsg, ?resp] \<and> ?t1 = ?t0u" by simp
    have c7: "toLowerCase (name ?t1) = toLowerCase ?nm" by simp
    have c8: "messages ?t1 \<noteq> []" and c9: "last (messages ?t1) = ?resp" by simp_all
    have c10: "case getTopicByName db ?nm of
             None \<Rightarrow>
               ?t1 = \<lparr>topic_id = shiftId env, name = ?nm, timestamp = shiftNow env,
                      messages = [?resp], flashcards = [], quizzes = [], examQuestions = [],
                      isMainTopic = False, notebookContent = [], knowledgeBase = []\<rparr>
               \<and> messages ?t0u = messages t0 @ [?userMsg]
           | Some t \<Rightarrow> topic_id ?t1 = topic_id t \<and> name ?t1 = name t
                       \<and> map fst (topics ?db4) = map fst (topics db)"
      by (simp add: none0)
    show ?thesis
      by (rule concl [OF out respRole uiFacts(1) look4 c5 cur4 c7 c8 c9 c10 uiFacts(2,3)])
  next
    case (Some t')
    with ids obtain t where some0: "getTopicByName db ?nm = Some t"
      and idt: "topic_id t = topic_id t'" by (cases "getTopicByName db ?nm") auto
    from getTopicByName_found [OF some0] have nmt: "toLowerCase (name t) = toLowerCase ?nm"
      by simp
    from getTopicByName_found [OF Some] have in1: "t' \<in> set (topicValues ?db1)"
      and nm': "toLowerCase (name t') = toLowerCase ?nm" by simp_all
    have names: "name t' = name t"
    proof -
      have "map_option name (getTopicByName ?db1 ?nm) = map_option name (getTopicByName db ?nm)"
      proof (cases "map_of (topics db) (topic_id t0)")
        case None
        then show ?thesis
          by (simp add: act(1) addMessageToTopic_def modifyTopic_def)
      next
        case (Some u)
        then show ?thesis
          using find_map_entry [of "\<lambda>t. toLowerCase (name t) = toLowerCase ?nm"
              "\<lambda>t. t\<lparr>messages := messages t @ [?userMsg]\<rparr>" name "topic_id t0" "topics db"]
          by (simp add: act(1) addMessageToTopic_def modifyTopic_def getTopicByName_def
              topicValues_def)
      qed
      with Some some0 show ?thesis by simp
    qed
    note sw = switchToTopic_found [OF wk1 Some, of "shiftId env" "shiftNow env"]
    note act3 = addMessageToCurrentTopic_active [OF sw(3) sw(2)]
    let ?t1 = "t'\<lparr>messages := messages t' @ [?resp]\<rparr>"
    have cur4: "getCurrentTopic ?db4 = Some ?t1" by (rule act3(4))
    have keys4: "map fst (topics ?db4) = map fst (topics db)"
      by (simp add: keys_addMessageToCurrentTopic sw(1) keys1)
    have look3: "map_of (topics ?db3) (topic_id t0) = Some ?t0u"
      using look1 by (simp add: sw(1))
    have m0: "messages ?t0u = messages t0 @ [?userMsg]" by simp
    have c7: "toLowerCase (name ?t1) = toLowerCase ?nm" using nm' by simp
    have c8: "messages ?t1 \<noteq> []" and c9: "last (messages ?t1) = ?resp" by simp_all
    have c10: "case getTopicByName db ?nm of
             None \<Rightarrow>
               ?t1 = \<lparr>topic_id = shiftId env, name = ?nm, timestamp = shiftNow env,
                      messages = [?resp], flashcards = [], quizzes = [], examQuestions = [],
                      isMainTopic = False, notebookContent = [], knowledgeBase = []\<rparr>
               \<and> messages x0 = messages t0 @ [?userMsg]
           | Some t \<Rightarrow> topic_id ?t1 = topic_id t \<and> name ?t1 = name t
                       \<and> map fst (topics ?db4) = map fst (topics db)" for x0 :: Topic
      using idt names keys4 by (simp add: some0)
    show ?thesis
    proof (cases "topic_id t0 = topic_id t'")
      case True
      have "map_of (topics ?db1) (topic_id t') = Some t'"
        by (rule wellKeyed_value(1) [OF wk1 in1])
      with look1 have "t' = ?t0u" by (metis True option.inject)
      then have "messages t' = messages t0 @ [?userMsg]" by (metis m0)
      then have m1: "messages ?t1 = messages t0 @ [?userMsg, ?resp]" by simp
      have look4: "map_of (topics ?db4) (topic_id t0) = Some ?t1"
        by (simp add: act3(3) True)
      from m1 have c5: "messages ?t1 = messages t0 @ [?userMsg]
           \<or> messages ?t1 = messages t0 @ [?userMsg, ?resp] \<and> ?t1 = ?t1" by simp
      show ?thesis
        by (rule concl [OF out respRole uiFacts(1) look4 c5 cur4 c7 c8 c9 c10 uiFacts(2,3)])
    next
      case False
      then have look4: "map_of (topics ?db4) (topic_id t0) = Some ?t0u"
        using look3 by (simp add: act3(3))
      have c5: "messages ?t0u = messages t0 @ [?userMsg]
           \<or> messages ?t0u = messages t0 @ [?userMsg, ?resp] \<and> ?t1 = ?t0u" by simp
      show ?thesis
        by (rule concl [OF out respRole uiFacts(1) look4 c5 cur4 c7 c8 c9 c10 uiFacts(2,3)])
    qed
  qed
qed

theorem shift_persistence_witness:
  "chatMessages (fst (handleSendMessage
          (scriptedEnv \<lparr>isNewTopic = True, topicName = ''Biology''\<rparr> (Resolved ''Cells are small.''))
          (sampleSession ''History'' ''What is a cell?'') (sampleStore ''History'')))
     = [\<lparr>role = User, msgText = ''What is a cell?'', sources = None\<rparr>,
        \<lparr>role = Model, msgText = ''Cells are small.'', sources = None\<rparr>]
   \<and> map_option (\<lambda>t. (name t, isMainTopic t, messages t))
       (getCurrentTopic (fst (snd (handleSendMessage
          (scriptedEnv \<lparr>isNewTopic = True, topicName = ''Biology''\<rparr> (Resolved ''Cells are small.''))
          (sampleSession ''History'' ''What is a cell?'') (sampleStore ''History'')))))
     = Some (''Biology'', False,
             [\<lparr>role = Model, msgText = ''Cells are small.'', sources = None\<rparr>])
   \<and> map_option messages
       (map_of (topics (fst (snd (handleSendMessage
          (scriptedEnv \<lparr>isNewTopic = True, topicName = ''Biology''\<rparr> (Resolved ''Cells are small.''))
          (sampleSession ''History'' ''What is a cell?'') (sampleStore ''History''))))) ''id-1'')
     = Some [\<lparr>role = User, msgText = ''What is a cell?'', sources = None\<rparr>]
   \<and> currentTopicName_ui (fst (handleSendMessage
          (scriptedEnv \<lparr>isNewTopic = True, topicName = ''Biology''\<rparr> (Resolved ''Cells are small.''))
          (sampleSession ''History'' ''What is a cell?'') (sampleStore ''History'')))
     = ''Biology''"
proof -
  let ?a = "\<lparr>isNewTopic = True, topicName = ''Biology''\<rparr>"
  let ?env = "scriptedEnv ?a (Resolved ''Cells are small.'')"
  let ?ui = "sampleSession ''History'' ''What is a cell?''"
  let ?db = "sampleStore ''History''"
  let ?orch = "newAgentOrchestrator Chat ''History''"
  let ?t0 = "\<lparr>topic_id = ''id-1'', name = ''History'', timestamp = 1000, messages = [],
       flashcards = [], quizzes = [], examQuestions = [], isMainTopic = True,
       notebookContent = [], knowledgeBase = []\<rparr>"
  let ?resp = "\<lparr>role = Model, msgText = ''Cells are small.'', sources = None\<rparr>"
  have h1: "orchestratorRef ?ui = Some ?orch"
    by (simp add: sampleSession_def)
  have h2: "parentChat ?orch = Some Chat"
    by (simp add: newAgentOrchestrator_def)
  have h3: "trim (inputMessage ?ui) \<noteq> []"
    by (simp add: sampleSession_def trim_def isWhiteSpace_def)
  have h4: "currentSlideIndex ?ui < length (slides ?ui)"
    by (simp add: sampleSession_def)
  have h5: "\<And>p. sendMessage ?env p = Resolved ((\<lambda>p. ''Cells are small.'') p)"
    by (simp add: scriptedEnv_def)
  have h6: "wellKeyed ?db"
    by (simp add: sampleStore_def wellKeyed_reset)
  have h7: "getCurrentTopic ?db = Some ?t0"
    by (simp add: sampleStore_def getCurrentTopic_reset)
  have h8: "shiftId ?env \<noteq> []"
    by (simp add: scriptedEnv_def)
  have h9: "shiftId ?env \<notin> fst ` set (topics ?db)"
    by (simp add: scriptedEnv_def sampleStore_def reset_def createTopic_def topicValues_def
        Let_def)
  have h10: "analyzeTopicShift (parseJson ?env) (classifyResponse ?env) (currentTopicName ?orch)
      = ?a"
    by (simp add: scriptedEnv_def analyzeTopicShift_def Let_def)
  have h11: "isNewTopic ?a" by simp
  have h12: "topicName ?a \<noteq> currentTopicName_ui ?ui"
    by (simp add: sampleSession_def)
  have h13: "?resp =
           \<lparr>role = Model,
            msgText = (\<lambda>p. ''Cells are small.'') (finalPrompt (fst (snd (detectShift ?a ?orch)))
                        (title (slides ?ui ! currentSlideIndex ?ui))
                        (fst (childAgentRouting ?env (agentMode ?ui) (inputMessage ?ui) ?db))
                        (inputMessage ?ui)),
            sources = (if snd (childAgentRouting ?env (agentMode ?ui) (inputMessage ?ui) ?db) \<noteq> []
                       then Some (snd (childAgentRouting ?env (agentMode ?ui) (inputMessage ?ui) ?db))
                       else None)\<rparr>"
    by (simp add: sampleSession_def childAgentRouting_def)
  have none: "getTopicByName ?db (topicName ?a) = None"
    by code_simp
  from shift_persistence [OF h1 h2 h3 h4 h5 h6 h7 h8 h9 h10 h11 h12 h13]
  obtain ui' db' tgt t0' t1 where out: "handleSendMessage ?env ?ui ?db = (ui', db', tgt)"
    and ch: "chatMessages ui' = chatMessages ?ui
          @ [\<lparr>role = User, msgText = inputMessage ?ui, sources = None\<rparr>, ?resp]"
    and l: "map_of (topics db') (topic_id ?t0) = Some t0'"
    and c: "getCurrentTopic db' = Some t1"
    and k: "case getTopicByName ?db (topicName ?a) of
           None \<Rightarrow>
             t1 = \<lparr>topic_id = shiftId ?env, name = topicName ?a, timestamp = shiftNow ?env,
                    messages = [?resp], flashcards = [], quizzes = [], examQuestions = [],
                    isMainTopic = False, notebookContent = [], knowledgeBase = []\<rparr>
             \<and> messages t0' = messages ?t0
                   @ [\<lparr>role = User, msgText = inputMessage ?ui, sources = None\<rparr>]
         | Some t \<Rightarrow> topic_id t1 = topic_id t \<and> name t1 = name t
                     \<and> map fst (topics db') = map fst (topics ?db)"
    and n: "currentTopicName_ui ui' = topicName ?a"
    by blast
  from k none have t1: "t1 = \<lparr>topic_id = shiftId ?env, name = topicName ?a,
                    timestamp = shiftNow ?env,
                    messages = [?resp], flashcards = [], quizzes = [], examQuestions = [],
                    isMainTopic = False, notebookContent = [], knowledgeBase = []\<rparr>"
    and m0: "messages t0' = messages ?t0
                   @ [\<lparr>role = User, msgText = inputMessage ?ui, sources = None\<rparr>]"
    by simp_all
  from ch have "chatMessages ui'
      = [\<lparr>role = User, msgText = ''What is a cell?'', sources = None\<rparr>, ?resp]"
    by (simp add: sampleSession_def)
  moreover from c t1 have "map_option (\<lambda>t. (name t, isMainTopic t, messages t))
       (getCurrentTopic db') = Some (''Biology'', False, [?resp])"
    by simp
  moreover from l m0 have "map_option messages (map_of (topics db') ''id-1'')
     = Some [\<lparr>role = User, msgText = ''What is a cell?'', sources = None\<rparr>]"
    by (simp add: sampleSession_def)
  moreover from n have "currentTopicName_ui ui' = ''Biology''" by simp
  ultimately show ?thesis by (simp add: out)
qed

text \<open>
  Claim C1 as stated fails on a turn whose synthesis fails: the classifier reports a shift
  from "History" to "Biology", the conversation engine rejects, and after the turn the
  store still has "History" as its one topic and its current topic, holding the learner's
  message only; no response is stored and no topic "Biology" exists.
\<close>

theorem shift_persistence_counterexample:
  "analyzeTopicShift
       (parseJson (scriptedEnv \<lparr>isNewTopic = True, topicName = ''Biology''\<rparr> Rejected))
       (classifyResponse (scriptedEnv \<lparr>isNewTopic = True, topicName = ''Biology''\<rparr> Rejected))
       ''History''
     = \<lparr>isNewTopic = True, topicName = ''Biology''\<rparr>
   \<and> map_option name (getCurrentTopic (fst (snd (handleSendMessage
          (scriptedEnv \<lparr>isNewTopic = True, topicName = ''Biology''\<rparr> Rejected)
          (sampleSession ''History'' ''What is a cell?'') (sampleStore ''History'')))))
     = Some ''History''
   \<and> map (\<lambda>t. (name t, messages t)) (topicValues (fst (snd (handleSendMessage
          (scriptedEnv \<lparr>isNewTopic = True, topicName = ''Biology''\<rparr> Rejected)
          (sampleSession ''History'' ''What is a cell?'') (sampleStore ''History'')))))
     = [(''History'', [\<lparr>role = User, msgText = ''What is a cell?'', sources = None\<rparr>])]
   \<and> getTopicByName (fst (snd (handleSendMessage
          (scriptedEnv \<lparr>isNewTopic = True, topicName = ''Biology''\<rparr> Rejected)
          (sampleSession ''History'' ''What is a cell?'') (sampleStore ''History''))))
        ''Biology'' = None"
  by code_simp

end
